theory Spec2Isabelle
  imports Main "HOL-Library.Sublist"
begin

section \<open>Python text\<close>

text \<open>
  A Python \<open>str\<close> is modelled as a \<open>string\<close> whose characters are the code points
  below 256. \<open>is_space\<close> is \<open>str.isspace\<close> on those code points; \<open>py_rstrip\<close> and
  \<open>py_strip\<close> are \<open>str.rstrip()\<close> and \<open>str.strip()\<close> without arguments.
\<close>

definition is_space :: "char \<Rightarrow> bool" where
  "is_space c = ((of_char c :: nat) \<in> set [9, 10, 11, 12, 13, 28, 29, 30, 31, 32, 133, 160])"

definition py_rstrip :: "string \<Rightarrow> string" where
  "py_rstrip s = rev (dropWhile is_space (rev s))"

definition py_strip :: "string \<Rightarrow> string" where
  "py_strip s = py_rstrip (dropWhile is_space s)"

definition digit :: "nat \<Rightarrow> char" where
  "digit n = char_of (48 + n)"

function show_nat :: "nat \<Rightarrow> string" where
  "show_nat n = (if n < 10 then [digit n] else show_nat (n div 10) @ [digit (n mod 10)])"
  by pat_completeness auto
termination
  by (relation "measure id") auto

declare show_nat.simps [simp del]

definition show_int :: "int \<Rightarrow> string" where
  "show_int i = (if i < 0 then CHR ''-'' # show_nat (nat (- i)) else show_nat (nat i))"

fun intercalate :: "string \<Rightarrow> string list \<Rightarrow> string" where
  "intercalate sep [] = []"
| "intercalate sep [x] = x"
| "intercalate sep (x # y # ys) = x @ sep @ intercalate sep (y # ys)"

section \<open>JSON values and \<open>json.dump\<close>\<close>

text \<open>
  The value \<open>response.json()\<close> returns. A float is carried by its \<open>repr\<close>, the only
  thing the program does with it; the keys of an object are strings, in document order.
\<close>

datatype json =
    JNull
  | JBool bool
  | JInt int
  | JFloat string
  | JStr string
  | JArr "json list"
  | JObj "(string \<times> json) list"

definition hexdig :: "nat \<Rightarrow> char" where
  "hexdig n = (if n < 10 then char_of (48 + n) else char_of (87 + n))"

text \<open>\<open>json.encoder.py_encode_basestring_ascii\<close>, one character at a time.\<close>

definition escape_char :: "char \<Rightarrow> string" where
  "escape_char c =
     (let n = (of_char c :: nat) in
      if c = CHR ''\"'' then [CHR 92, CHR ''\"'']
      else if n = 92 then [CHR 92, CHR 92]
      else if n = 10 then [CHR 92, CHR ''n'']
      else if n = 13 then [CHR 92, CHR ''r'']
      else if n = 9 then [CHR 92, CHR ''t'']
      else if n = 8 then [CHR 92, CHR ''b'']
      else if n = 12 then [CHR 92, CHR ''f'']
      else if n < 32 \<or> 126 < n
        then [CHR 92, CHR ''u'', CHR ''0'', CHR ''0'', hexdig (n div 16), hexdig (n mod 16)]
      else [c])"

definition encode_str :: "string \<Rightarrow> string" where
  "encode_str s = CHR ''\"'' # concat (map escape_char s) @ [CHR ''\"'']"

text \<open>
  \<open>json.dumps(v, indent=ind)\<close> at nesting depth \<open>lvl\<close>. With \<open>indent=None\<close> the item
  separator is \<open>", "\<close>; with an indent it is \<open>","\<close> followed by a line break and the
  indentation. The key separator is \<open>": "\<close> in both.
\<close>

definition newline_indent :: "nat option \<Rightarrow> nat \<Rightarrow> string" where
  "newline_indent ind lvl =
     (case ind of None \<Rightarrow> [] | Some n \<Rightarrow> CHR 10 # replicate (n * lvl) CHR '' '')"

definition item_separator :: "nat option \<Rightarrow> nat \<Rightarrow> string" where
  "item_separator ind lvl =
     (case ind of None \<Rightarrow> '', '' | Some n \<Rightarrow> CHR '','' # newline_indent ind lvl)"

fun dumps :: "nat option \<Rightarrow> nat \<Rightarrow> json \<Rightarrow> string" where
  "dumps ind lvl JNull = ''null''"
| "dumps ind lvl (JBool b) = (if b then ''true'' else ''false'')"
| "dumps ind lvl (JInt i) = show_int i"
| "dumps ind lvl (JFloat r) = r"
| "dumps ind lvl (JStr s) = encode_str s"
| "dumps ind lvl (JArr xs) =
     (if xs = [] then ''[]''
      else ''['' @ newline_indent ind (Suc lvl)
           @ intercalate (item_separator ind (Suc lvl)) (map (dumps ind (Suc lvl)) xs)
           @ newline_indent ind lvl @ '']'')"
| "dumps ind lvl (JObj kvs) =
     (if kvs = [] then ''{}''
      else ''{'' @ newline_indent ind (Suc lvl)
           @ intercalate (item_separator ind (Suc lvl))
               (map (\<lambda>(k, v). encode_str k @ '': '' @ dumps ind (Suc lvl) v) kvs)
           @ newline_indent ind lvl @ ''}'')"

definition json_dumps :: "json \<Rightarrow> string" where
  "json_dumps v = dumps None 0 v"

definition json_dumps_indent2 :: "json \<Rightarrow> string" where
  "json_dumps_indent2 v = dumps (Some 2) 0 v"

section \<open>Python subscripting\<close>

datatype py_exception =
    KeyError
  | IndexError
  | TypeError
  | AttributeError
  | ValueError
  | FileNotFoundError
  | UnicodeDecodeError
  | RequestException string

text \<open>
  \<open>v[k]\<close> for a string key: only a dict can answer; a list or a string raises
  \<open>TypeError\<close> (indices must be integers), every other value is not subscriptable.
\<close>

fun getitem_key :: "json \<Rightarrow> string \<Rightarrow> py_exception + json" where
  "getitem_key (JObj kvs) k = (case map_of kvs k of None \<Rightarrow> Inl KeyError | Some v \<Rightarrow> Inr v)"
| "getitem_key v k = Inl TypeError"

text \<open>
  \<open>v[0]\<close>: the first element of a list, the first character of a string, \<open>KeyError\<close>
  on a dict (its keys are strings), \<open>TypeError\<close> on anything else.
\<close>

fun getitem_0 :: "json \<Rightarrow> py_exception + json" where
  "getitem_0 (JArr []) = Inl IndexError"
| "getitem_0 (JArr (x # xs)) = Inr x"
| "getitem_0 (JObj kvs) = Inl KeyError"
| "getitem_0 (JStr []) = Inl IndexError"
| "getitem_0 (JStr (c # cs)) = Inr (JStr [c])"
| "getitem_0 v = Inl TypeError"

definition bind_exc :: "py_exception + 'a \<Rightarrow> ('a \<Rightarrow> py_exception + 'b) \<Rightarrow> py_exception + 'b" where
  "bind_exc r f = (case r of Inl e \<Rightarrow> Inl e | Inr v \<Rightarrow> f v)"

text \<open>\<open>response.json()["results"]["channels"][0]["alternatives"][0]["transcript"]\<close>\<close>

definition extract_transcript :: "json \<Rightarrow> py_exception + json" where
  "extract_transcript j =
     bind_exc (getitem_key j ''results'') (\<lambda>r.
     bind_exc (getitem_key r ''channels'') (\<lambda>cs.
     bind_exc (getitem_0 cs) (\<lambda>c.
     bind_exc (getitem_key c ''alternatives'') (\<lambda>as.
     bind_exc (getitem_0 as) (\<lambda>a.
     getitem_key a ''transcript'')))))"

section \<open>Files, audio arrays, the process state\<close>

text \<open>
  Audio samples are opaque to the program (it only copies and concatenates them); they
  are carried as integers. An array handed to the callback has shape
  \<open>(frames, channels)\<close>: \<open>ncols\<close> is the second dimension, \<open>vals\<close> the rows in order.
\<close>

type_synonym sample = int

datatype ndarray = NDArray (ncols: nat) (vals: "sample list")

datatype file_content =
    Text string
  | Wav (rate: nat) (nchannels: nat) (samples: "sample list")

record stream =
  samplerate :: nat
  channels :: nat
  started :: bool

record request =
  url :: string
  headers :: "(string \<times> string) list"
  body :: file_content

text \<open>
  The process state: the file system (path to content; directories are not modelled and
  opening a file for writing always succeeds), the globals of the script, the
  clipboard, the requests sent, and the two output streams (one entry per \<open>print\<close>).
\<close>

record state =
  fs :: "string \<rightharpoonup> file_content"
  recording_process :: "stream option"
  audio_data :: "ndarray list"
  stop_event :: bool
  DEBUG :: bool
  clipboard :: "string option"
  net_log :: "request list"
  stdout :: "string list"
  stderr :: "string list"

text \<open>A block as the audio device delivers it: the status flags (empty when none) and the samples.\<close>

record block =
  flags :: string
  frames :: "sample list"

text \<open>
  What ends the wait at line 125: the timeout, the Enter key, SIGINT (for which line 207
  registers \<open>signal_handler\<close>), or SIGTERM, for which \<open>vox.py\<close> registers nothing, so the
  signal has its default action and ends the process at once.
\<close>

datatype stop_cause = Timeout | ManualStop | Interrupt | Terminate

text \<open>
  What \<open>requests\<close> gives back. \<open>content\<close> is the body as received;
  \<open>json_result\<close> is what \<open>response.json()\<close> does with it: the parsed value, or the text of
  the \<open>requests.exceptions.JSONDecodeError\<close> it raises (a \<open>RequestException\<close>).
\<close>

record response =
  status_code :: nat
  reason :: string
  content :: string
  json_result :: "string + json"

datatype http_result = ConnectionFailed string | Responded response

text \<open>
  Everything the run takes from outside: the environment variables, the command line,
  the clock, the home directory, what the audio device delivers before and after the
  stop event is set, which stop condition ends the wait, and what the endpoint answers.
\<close>

record env =
  home :: string
  DEEPGRAM_API_KEY :: string
  DEEPGRAM_MODEL :: string
  MAX_DURATION :: int
  argv :: "string list"
  pid :: nat
  timestamp :: string
  pre_blocks :: "block list"
  post_blocks :: "block list"
  stop :: stop_cause
  http :: http_result

text \<open>
  How a function ends: it returns, \<open>sys.exit\<close> is called, an exception is not caught, or
  the process is killed by a signal with the given number.
\<close>

datatype 'a outcome = Returned 'a | SysExit int | Uncaught py_exception | Killed nat

text \<open>The exit status of the process: 0 when the script runs to its end, the argument of
  \<open>sys.exit\<close>, 1 after an uncaught exception, and 128 plus the signal number, as a shell
  reports it, when a signal kills the process.\<close>

fun exit_code :: "'a outcome \<Rightarrow> int" where
  "exit_code (Returned v) = 0"
| "exit_code (SysExit n) = n"
| "exit_code (Uncaught e) = 1"
| "exit_code (Killed sig) = 128 + int sig"

definition SIGTERM :: nat where "SIGTERM = 15"

definition SAMPLE_RATE :: nat where "SAMPLE_RATE = 16000"
definition CHANNELS :: nat where "CHANNELS = 1"
definition AUDIO_FORMAT :: string where "AUDIO_FORMAT = ''wav''"

text \<open>
  \<open>Path.home() / name\<close> is the home directory's path, a slash and the name (the home
  directory is not the root and its path has no trailing slash).
\<close>

definition PID_FILE :: "env \<Rightarrow> string" where
  "PID_FILE env = home env @ ''/.recordpid''"

definition AUDIO_FILE_TRACKER :: "env \<Rightarrow> string" where
  "AUDIO_FILE_TRACKER env = home env @ ''/.recordaudio''"

definition BASE_FILE :: "env \<Rightarrow> string" where
  "BASE_FILE env = home env @ ''/.vox/recording''"

definition print_out :: "string \<Rightarrow> ('a state_scheme) \<Rightarrow> ('a state_scheme)" where
  "print_out msg s = s\<lparr>stdout := stdout s @ [msg]\<rparr>"

definition print_err :: "string \<Rightarrow> ('a state_scheme) \<Rightarrow> ('a state_scheme)" where
  "print_err msg s = s\<lparr>stderr := stderr s @ [msg]\<rparr>"

definition write_text :: "string \<Rightarrow> string \<Rightarrow> ('a state_scheme) \<Rightarrow> ('a state_scheme)" where
  "write_text path txt s = s\<lparr>fs := (fs s)(path \<mapsto> Text txt)\<rparr>"

definition unlink :: "string \<Rightarrow> ('a state_scheme) \<Rightarrow> ('a state_scheme)" where
  "unlink path s = s\<lparr>fs := (fs s)(path := None)\<rparr>"

definition read_text :: "string \<Rightarrow> ('a state_scheme) \<Rightarrow> py_exception + string" where
  "read_text path s =
     (case fs s path of
        None \<Rightarrow> Inl FileNotFoundError
      | Some (Text txt) \<Rightarrow> Inr txt
      | Some (Wav r c d) \<Rightarrow> Inl UnicodeDecodeError)"

text \<open>\<open>numpy.concatenate\<close> along the first axis: the second dimensions must agree.\<close>

definition np_concatenate :: "ndarray list \<Rightarrow> py_exception + ndarray" where
  "np_concatenate arrs =
     (case arrs of
        [] \<Rightarrow> Inl ValueError
      | a # rest \<Rightarrow>
          if list_all (\<lambda>b. ncols b = ncols a) rest
          then Inr (NDArray (ncols a) (concat (map vals arrs)))
          else Inl ValueError)"

text \<open>\<open>scipy.io.wavfile.write\<close>: the channel count of the file is the array's second dimension.\<close>

definition wavfile_write :: "string \<Rightarrow> nat \<Rightarrow> ndarray \<Rightarrow> ('a state_scheme) \<Rightarrow> ('a state_scheme)" where
  "wavfile_write path r d s = s\<lparr>fs := (fs s)(path \<mapsto> Wav r (ncols d) (vals d))\<rparr>"

section \<open>The terminal front end: session controller\<close>

definition check_environment :: "env \<Rightarrow> state \<Rightarrow> unit outcome \<times> state" where
  "check_environment env s =
     (if DEEPGRAM_API_KEY env = [] then
        (SysExit 1,
         print_err ''Get your API key from https://console.deepgram.com''
           (print_err (''Please set it with: export DEEPGRAM_API_KEY='' @ [CHR 39]
                         @ ''your-api-key'' @ [CHR 39])
             (print_err ''Error: DEEPGRAM_API_KEY environment variable is not set.'' s)))
      else (Returned (), s))"

definition callback :: "ndarray \<Rightarrow> string \<Rightarrow> state \<Rightarrow> state" where
  "callback indata status s =
     (let s1 = (if status \<noteq> [] then print_err (''Error: '' @ status) s else s)
      in if \<not> stop_event s1 then s1\<lparr>audio_data := audio_data s1 @ [indata]\<rparr> else s1)"

definition cleanup :: "env \<Rightarrow> state \<Rightarrow> state" where
  "cleanup env s =
     (let s1 = (if recording_process s \<noteq> None then s\<lparr>recording_process := None\<rparr> else s)
      in unlink (AUDIO_FILE_TRACKER env) (unlink (PID_FILE env) s1))"

definition signal_handler :: "env \<Rightarrow> state \<Rightarrow> 'a outcome \<times> state" where
  "signal_handler env s =
     (let s1 = print_out (CHR 10 # ''> Ctrl+C detected, stopping recording...'') s;
          s2 = s1\<lparr>stop_event := True\<rparr>
      in (SysExit 0, cleanup env s2))"

text \<open>
  The audio device calls the callback of a started stream once per block, with an
  array of shape \<open>(frames, channels)\<close>; without a started stream nothing is called.
\<close>

definition deliver_block :: "block \<Rightarrow> state \<Rightarrow> state" where
  "deliver_block b s =
     (case recording_process s of
        None \<Rightarrow> s
      | Some st \<Rightarrow>
          if started st then callback (NDArray (channels st) (frames b)) (flags b) s else s)"

definition deliver :: "block list \<Rightarrow> state \<Rightarrow> state" where
  "deliver bs s = fold deliver_block bs s"

definition stop_recording :: "env \<Rightarrow> state \<Rightarrow> string outcome \<times> state" where
  "stop_recording env s =
     (let s1 = print_out ''> Stopping recording...'' s in
      if fs s1 (PID_FILE env) \<noteq> None \<and> recording_process s1 \<noteq> None then
        let s2 = s1\<lparr>stop_event := True\<rparr> in
        case read_text (AUDIO_FILE_TRACKER env) s2 of
          Inl e \<Rightarrow> (Uncaught e, s2)
        | Inr txt \<Rightarrow>
            let audio_file = py_strip txt in
            if audio_data s2 \<noteq> [] then
              case np_concatenate (audio_data s2) of
                Inl e \<Rightarrow> (Uncaught e, s2)
              | Inr d \<Rightarrow>
                  (Returned audio_file,
                   print_out ''Recording stopped.''
                     (cleanup env (wavfile_write audio_file SAMPLE_RATE d s2)))
            else
              (SysExit 1, cleanup env (print_out ''No audio data recorded.'' s2))
      else
        (SysExit 1, cleanup env (print_out ''No recording to stop.'' s1)))"

text \<open>
  \<open>start_recording\<close>, in two parts: \<open>begin_capture\<close> is lines 99 to 113, up to the
  point where the waiting starts; \<open>audio_file_name\<close> is the path of line 101, with the
  clock's \<open>strftime\<close> text taken from the environment. The stream is started before the wait; the blocks of
  \<open>pre_blocks\<close> arrive while the stop event is clear, then the wait ends by the Enter key
  (\<open>monitor_input\<close> sets the event), by the timeout (line 127 sets it), by SIGINT (the
  handler runs) or by SIGTERM (the process is killed where it stands, with the state of
  that moment); the blocks of \<open>post_blocks\<close> arrive after the event is set and before the
  stream is stopped. The elapsed-time display writes only to the terminal and is left out.
\<close>

definition audio_file_name :: "env \<Rightarrow> string" where
  "audio_file_name env = BASE_FILE env @ ''_'' @ timestamp env @ ''.'' @ AUDIO_FORMAT"

definition begin_capture :: "env \<Rightarrow> state \<Rightarrow> state" where
  "begin_capture env s =
     (let s1 = cleanup env s;
          audio_file = audio_file_name env;
          s2 = write_text (AUDIO_FILE_TRACKER env) audio_file s1;
          s3 = print_out (''> Recording started to '' @ audio_file @ ''...'') s2;
          s4 = print_out (''Press Enter to stop early (max '' @ show_int (MAX_DURATION env)
                            @ '' seconds).'') s3;
          s5 = s4\<lparr>audio_data := [], stop_event := False\<rparr>;
          s6 = s5\<lparr>recording_process :=
                    Some \<lparr>samplerate = SAMPLE_RATE, channels = CHANNELS, started = True\<rparr>\<rparr>
      in write_text (PID_FILE env) (show_nat (pid env)) s6)"

definition start_recording :: "env \<Rightarrow> state \<Rightarrow> string outcome \<times> state" where
  "start_recording env s =
     (let s7 = begin_capture env s;
          s8 = deliver (pre_blocks env) s7
      in case stop env of
           Interrupt \<Rightarrow> signal_handler env s8
         | Terminate \<Rightarrow> (Killed SIGTERM, s8)
         | ManualStop \<Rightarrow> stop_recording env (deliver (post_blocks env) (s8\<lparr>stop_event := True\<rparr>))
         | Timeout \<Rightarrow> stop_recording env (deliver (post_blocks env) (s8\<lparr>stop_event := True\<rparr>)))"

section \<open>The terminal front end: transcription client\<close>

definition listen_url :: "string \<Rightarrow> string" where
  "listen_url m = ''https://api.deepgram.com/v1/listen?model='' @ m @ ''&smart_format=true''"

definition listen_request :: "string \<Rightarrow> string \<Rightarrow> file_content \<Rightarrow> request" where
  "listen_request m key data =
     \<lparr>url = listen_url m,
      headers = [(''Authorization'', ''Token '' @ key),
                 (''Content-Type'', ''audio/'' @ AUDIO_FORMAT)],
      body = data\<rparr>"

text \<open>
  \<open>Response.raise_for_status\<close>: an \<open>HTTPError\<close> for a status from 400 to 599, with the
  message \<open>requests\<close> builds; nothing for any other status. The result is the text of the
  exception, if one is raised.
\<close>

definition raise_for_status :: "string \<Rightarrow> response \<Rightarrow> string option" where
  "raise_for_status u r =
     (if 400 \<le> status_code r \<and> status_code r < 500 then
        Some (show_nat (status_code r) @ '' Client Error: '' @ reason r @ '' for url: '' @ u)
      else if 500 \<le> status_code r \<and> status_code r < 600 then
        Some (show_nat (status_code r) @ '' Server Error: '' @ reason r @ '' for url: '' @ u)
      else None)"

text \<open>
  The body of the \<open>try\<close> statement of \<open>transcribe\<close> (lines 163 to 188): the exception
  that leaves it, if any, and the state at that point. \<open>open(path, "w")\<close> empties the file
  before anything is written to it.
\<close>

definition transcribe_try ::
  "env \<Rightarrow> string \<Rightarrow> file_content \<Rightarrow> state \<Rightarrow> (py_exception + unit) \<times> state" where
  "transcribe_try env audio_file data s =
     (let error_file = audio_file @ ''.error'';
          json_file = audio_file @ ''.json'';
          txt_file = audio_file @ ''.txt'';
          req = listen_request (DEEPGRAM_MODEL env) (DEEPGRAM_API_KEY env) data;
          s1 = s\<lparr>net_log := net_log s @ [req]\<rparr>
      in case http env of
           ConnectionFailed msg \<Rightarrow> (Inl (RequestException msg), s1)
         | Responded r \<Rightarrow>
            (case raise_for_status (url req) r of
               Some msg \<Rightarrow> (Inl (RequestException msg), s1)
             | None \<Rightarrow>
                let s2 = write_text json_file [] s1 in
                (case json_result r of
                   Inl msg \<Rightarrow> (Inl (RequestException msg), s2)
                 | Inr j \<Rightarrow>
                    let s3 = write_text json_file (json_dumps j) s2;
                        s4 = (if DEBUG s3 then
                                print_err (json_dumps_indent2 j)
                                  (print_err (''DEBUG: Full Deepgram API response saved in ''
                                                @ json_file @ '':'') s3)
                              else s3)
                    in (case extract_transcript j of
                          Inl e \<Rightarrow> (Inl e, s4)
                        | Inr t \<Rightarrow>
                           let s5 = write_text txt_file [] s4 in
                           (case t of
                              JStr str \<Rightarrow>
                                let s6 = write_text txt_file (py_rstrip str) s5;
                                    s7 = s6\<lparr>clipboard := Some str\<rparr>;
                                    s8 = print_out (''> Transcript copied to clipboard from ''
                                                      @ txt_file) s7
                                in (Inr (), unlink error_file s8)
                            | _ \<Rightarrow> (Inl AttributeError, s5))))))"

definition transcribe :: "env \<Rightarrow> string \<Rightarrow> state \<Rightarrow> unit outcome \<times> state" where
  "transcribe env audio_file s =
     (case (if audio_file = [] then None else fs s audio_file) of
        None \<Rightarrow> (SysExit 1, print_err ''Error: Audio file missing or not set'' s)
      | Some data \<Rightarrow>
         let s1 = print_out (''> Transcribing with Deepgram API (model: '' @ DEEPGRAM_MODEL env
                               @ '')...'') s
         in case transcribe_try env audio_file data s1 of
              (Inr u, s2) \<Rightarrow> (Returned (), s2)
            | (Inl (RequestException msg), s2) \<Rightarrow>
                (SysExit 1,
                 print_err (''Error: Transcription failed. Deepgram response saved in ''
                              @ audio_file @ ''.error'')
                   (write_text (audio_file @ ''.error'') msg s2))
            | (Inl KeyError, s2) \<Rightarrow>
                (SysExit 1,
                 print_err (''Error: Failed to extract transcript from JSON, check ''
                              @ audio_file @ ''.json'') s2)
            | (Inl IndexError, s2) \<Rightarrow>
                (SysExit 1,
                 print_err (''Error: Failed to extract transcript from JSON, check ''
                              @ audio_file @ ''.json'') s2)
            | (Inl e, s2) \<Rightarrow> (Uncaught e, s2))"

definition main :: "env \<Rightarrow> state \<Rightarrow> unit outcome \<times> state" where
  "main env s =
     (case check_environment env s of
        (SysExit n, s1) \<Rightarrow> (SysExit n, s1)
      | (Uncaught e, s1) \<Rightarrow> (Uncaught e, s1)
      | (Killed sig, s1) \<Rightarrow> (Killed sig, s1)
      | (Returned u, s1) \<Rightarrow>
         let s2 = (if length (argv env) > 1 \<and> argv env ! 1 = ''debug''
                   then s1\<lparr>DEBUG := True\<rparr> else s1)
         in case start_recording env s2 of
              (SysExit n, s3) \<Rightarrow> (SysExit n, s3)
            | (Uncaught e, s3) \<Rightarrow> (Uncaught e, s3)
            | (Killed sig, s3) \<Rightarrow> (Killed sig, s3)
            | (Returned audio_file, s3) \<Rightarrow>
                if audio_file \<noteq> [] then transcribe env audio_file s3 else (Returned (), s3))"

section \<open>The graphical front end\<close>

text \<open>
  The window's own fields next to the globals of \<open>vox_gui.py\<close>. \<open>self.transcript\<close> holds
  whatever the subscripting returned, so it is a JSON value.
\<close>

record gui_state = state +
  status_label :: string
  transcript :: json
  deepgram_api_key :: string
  deepgram_model :: string
  debug_mode :: bool

definition set_status :: "string \<Rightarrow> gui_state \<Rightarrow> gui_state" where
  "set_status msg g = g\<lparr>status_label := msg\<rparr>"

definition VoxWindow_callback :: "ndarray \<Rightarrow> string \<Rightarrow> gui_state \<Rightarrow> gui_state" where
  "VoxWindow_callback indata status g =
     (let g1 = (if status \<noteq> [] then set_status (''Error: '' @ status) g else g)
      in if \<not> stop_event g1 then g1\<lparr>audio_data := audio_data g1 @ [indata]\<rparr> else g1)"

text \<open>The body of the \<open>try\<close> statement of \<open>VoxWindow.transcribe\<close> (lines 330 to 357).\<close>

definition VoxWindow_transcribe_try ::
  "env \<Rightarrow> string \<Rightarrow> file_content \<Rightarrow> gui_state \<Rightarrow> (py_exception + unit) \<times> gui_state" where
  "VoxWindow_transcribe_try env audio_file data g =
     (let error_file = audio_file @ ''.error'';
          json_file = audio_file @ ''.json'';
          txt_file = audio_file @ ''.txt'';
          req = listen_request (deepgram_model g) (deepgram_api_key g) data;
          g1 = g\<lparr>net_log := net_log g @ [req]\<rparr>
      in case http env of
           ConnectionFailed msg \<Rightarrow> (Inl (RequestException msg), g1)
         | Responded r \<Rightarrow>
            (case raise_for_status (url req) r of
               Some msg \<Rightarrow> (Inl (RequestException msg), g1)
             | None \<Rightarrow>
                let g2 = write_text json_file [] g1 in
                (case json_result r of
                   Inl msg \<Rightarrow> (Inl (RequestException msg), g2)
                 | Inr j \<Rightarrow>
                    let g3 = write_text json_file (json_dumps j) g2;
                        g4 = (if debug_mode g3 then
                                print_err (json_dumps_indent2 j)
                                  (print_err (''DEBUG: Full Deepgram API response saved in ''
                                                @ json_file @ '':'')
                                    (set_status (''DEBUG: Response saved in '' @ json_file) g3))
                              else g3)
                    in (case extract_transcript j of
                          Inl e \<Rightarrow> (Inl e, g4)
                        | Inr t \<Rightarrow>
                           let g5 = g4\<lparr>transcript := t\<rparr>;
                               g6 = write_text txt_file [] g5 in
                           (case t of
                              JStr str \<Rightarrow>
                                let g7 = write_text txt_file (py_rstrip str) g6;
                                    g8 = set_status (''Transcript saved to '' @ txt_file
                                                       @ ''. Click Copy to copy.'') g7
                                in (Inr (), unlink error_file g8)
                            | _ \<Rightarrow> (Inl AttributeError, g6))))))"

definition VoxWindow_transcribe :: "env \<Rightarrow> string \<Rightarrow> gui_state \<Rightarrow> unit outcome \<times> gui_state" where
  "VoxWindow_transcribe env audio_file g =
     (case (if audio_file = [] then None else fs g audio_file) of
        None \<Rightarrow>
          (Returned (), (set_status ''Error: Audio file missing or not set'' g)\<lparr>transcript := JStr []\<rparr>)
      | Some data \<Rightarrow>
         (case VoxWindow_transcribe_try env audio_file data g of
            (Inr u, g2) \<Rightarrow> (Returned (), g2)
          | (Inl (RequestException msg), g2) \<Rightarrow>
              (Returned (),
               (set_status (''Error: Transcription failed. See '' @ audio_file @ ''.error'')
                  (write_text (audio_file @ ''.error'') msg g2))\<lparr>transcript := JStr []\<rparr>)
          | (Inl KeyError, g2) \<Rightarrow>
              (Returned (),
               (set_status (''Error: Failed to extract transcript. Check ''
                              @ audio_file @ ''.json'') g2)\<lparr>transcript := JStr []\<rparr>)
          | (Inl IndexError, g2) \<Rightarrow>
              (Returned (),
               (set_status (''Error: Failed to extract transcript. Check ''
                              @ audio_file @ ''.json'') g2)\<lparr>transcript := JStr []\<rparr>)
          | (Inl e, g2) \<Rightarrow> (Uncaught e, g2)))"

section \<open>Sample inputs\<close>

text \<open>
  Concrete runs used below: three blocks delivered before a manual stop and one after
  it, and the endpoint's answers of the specification's test cases.
\<close>

definition sample_blocks :: "block list" where
  "sample_blocks =
     [\<lparr>flags = [], frames = [1, 2]\<rparr>, \<lparr>flags = [], frames = [3]\<rparr>, \<lparr>flags = [], frames = [4, 5]\<rparr>]"

definition transcript_json :: "string \<Rightarrow> json" where
  "transcript_json t =
     JObj [(''results'',
       JObj [(''channels'',
         JArr [JObj [(''alternatives'', JArr [JObj [(''transcript'', JStr t)]])]])])]"

definition ok_response :: "string \<Rightarrow> json \<Rightarrow> response" where
  "ok_response raw j = \<lparr>status_code = 200, reason = ''OK'', content = raw, json_result = Inr j\<rparr>"

definition server_error_response :: response where
  "server_error_response =
     \<lparr>status_code = 500, reason = ''Internal Server Error'',
      content = ''{\"err_code\":\"INTERNAL\"}'',
      json_result = Inr (JObj [(''err_code'', JStr ''INTERNAL'')])\<rparr>"

definition sample_env :: env where
  "sample_env =
     \<lparr>home = ''/home/u'', DEEPGRAM_API_KEY = ''secret'', DEEPGRAM_MODEL = ''nova-3'',
      MAX_DURATION = 120, argv = [''vox.py''], pid = 4242, timestamp = ''20240101_120000'',
      pre_blocks = sample_blocks, post_blocks = [\<lparr>flags = [], frames = [9]\<rparr>],
      stop = ManualStop,
      http = Responded (ok_response
               ''{\"results\":{\"channels\":[{\"alternatives\":[{\"transcript\":\"hello world\"}]}]}}''
               (transcript_json ''hello world''))\<rparr>"

definition trailing_space_env :: env where
  "trailing_space_env =
     sample_env\<lparr>http := Responded (ok_response
        ''{\"results\":{\"channels\":[{\"alternatives\":[{\"transcript\":\"hello world \"}]}]}}''
        (transcript_json ''hello world ''))\<rparr>"

definition empty_results_env :: env where
  "empty_results_env =
     sample_env\<lparr>http := Responded (ok_response ''{\"results\":{}}''
                                 (JObj [(''results'', JObj [])]))\<rparr>"

definition null_results_env :: env where
  "null_results_env =
     sample_env\<lparr>http := Responded (ok_response ''{\"results\":null}''
                                 (JObj [(''results'', JNull)]))\<rparr>"

definition sigterm_env :: env where
  "sigterm_env = sample_env\<lparr>stop := Terminate\<rparr>"

definition server_error_env :: env where
  "server_error_env = sample_env\<lparr>http := Responded server_error_response\<rparr>"

definition sample_wav :: string where
  "sample_wav = ''/home/u/.vox/recording_20240101_120000.wav''"

definition fresh_state :: state where
  "fresh_state =
     \<lparr>fs = Map.empty, recording_process = None, audio_data = [], stop_event = False,
      DEBUG = False, clipboard = None, net_log = [], stdout = [], stderr = []\<rparr>"

definition stale_state :: state where
  "stale_state =
     fresh_state\<lparr>fs := [''/home/u/.recordpid'' \<mapsto> Text ''999'',
                          ''/home/u/.recordaudio'' \<mapsto> Text ''/home/u/.vox/old.wav'']\<rparr>"

definition recorded_state :: state where
  "recorded_state = fresh_state\<lparr>fs := [sample_wav \<mapsto> Wav 16000 1 [1, 2, 3, 4, 5]]\<rparr>"

definition recorded_gui :: gui_state where
  "recorded_gui =
     \<lparr>fs = [sample_wav \<mapsto> Wav 16000 1 [1, 2, 3, 4, 5]], recording_process = None,
      audio_data = [], stop_event = True, DEBUG = False, clipboard = None, net_log = [],
      stdout = [], stderr = [],
      status_label = ''Transcribing...'', transcript = JStr [],
      deepgram_api_key = ''secret'', deepgram_model = ''nova-3'', debug_mode = False\<rparr>"

section \<open>Basic facts about the session controller\<close>

lemma cleanup_fs:
  "fs (cleanup env s) = (fs s)(PID_FILE env := None, AUDIO_FILE_TRACKER env := None)"
  by (simp add: cleanup_def unlink_def Let_def)

lemma cleanup_fields:
  "audio_data (cleanup env s) = audio_data s"
  "stop_event (cleanup env s) = stop_event s"
  "clipboard (cleanup env s) = clipboard s"
  "net_log (cleanup env s) = net_log s"
  "stdout (cleanup env s) = stdout s"
  "stderr (cleanup env s) = stderr s"
  "DEBUG (cleanup env s) = DEBUG s"
  "recording_process (cleanup env s) = None"
  by (simp_all add: cleanup_def unlink_def Let_def)

lemma callback_fields:
  "fs (callback a st s) = fs s"
  "stop_event (callback a st s) = stop_event s"
  "recording_process (callback a st s) = recording_process s"
  "clipboard (callback a st s) = clipboard s"
  "net_log (callback a st s) = net_log s"
  "stdout (callback a st s) = stdout s"
  "DEBUG (callback a st s) = DEBUG s"
  by (simp_all add: callback_def print_err_def Let_def)

lemma callback_audio_data:
  "audio_data (callback a st s) = (if stop_event s then audio_data s else audio_data s @ [a])"
  by (simp add: callback_def print_err_def Let_def)

lemma deliver_block_fields:
  "fs (deliver_block b s) = fs s"
  "stop_event (deliver_block b s) = stop_event s"
  "recording_process (deliver_block b s) = recording_process s"
  "clipboard (deliver_block b s) = clipboard s"
  "net_log (deliver_block b s) = net_log s"
  "stdout (deliver_block b s) = stdout s"
  "DEBUG (deliver_block b s) = DEBUG s"
  by (simp_all add: deliver_block_def callback_fields split: option.splits)

lemma deliver_fields:
  "fs (deliver bs s) = fs s"
  "stop_event (deliver bs s) = stop_event s"
  "recording_process (deliver bs s) = recording_process s"
  "clipboard (deliver bs s) = clipboard s"
  "net_log (deliver bs s) = net_log s"
  "stdout (deliver bs s) = stdout s"
  "DEBUG (deliver bs s) = DEBUG s"
  unfolding deliver_def
  by (induction bs arbitrary: s; simp add: deliver_block_fields)+

lemma deliver_block_stopped:
  "stop_event s \<Longrightarrow> audio_data (deliver_block b s) = audio_data s"
  by (simp add: deliver_block_def callback_audio_data split: option.splits)

lemma deliver_stopped:
  "stop_event s \<Longrightarrow> audio_data (deliver bs s) = audio_data s"
  unfolding deliver_def
  by (induction bs arbitrary: s) (simp_all add: deliver_block_fields deliver_block_stopped)

lemma deliver_running:
  "\<not> stop_event s \<Longrightarrow> recording_process s = Some st \<Longrightarrow> started st \<Longrightarrow>
   audio_data (deliver bs s) = audio_data s @ map (\<lambda>b. NDArray (channels st) (frames b)) bs"
  unfolding deliver_def
  by (induction bs arbitrary: s)
     (simp_all add: deliver_block_fields deliver_block_def callback_audio_data callback_fields)

lemma deliver_prefix: "prefix (audio_data s) (audio_data (deliver bs s))"
  unfolding deliver_def
proof (induction bs arbitrary: s)
  case Nil
  show ?case by simp
next
  case (Cons b bs)
  have "prefix (audio_data s) (audio_data (deliver_block b s))"
    by (simp add: deliver_block_def callback_audio_data split: option.splits)
  with Cons[of "deliver_block b s"] show ?case
    using prefix_order.order_trans by auto
qed


lemma py_rstrip_snoc: "\<not> is_space c \<Longrightarrow> py_rstrip (xs @ [c]) = xs @ [c]"
  by (simp add: py_rstrip_def)

lemma py_strip_snoc:
  "\<not> is_space c \<Longrightarrow> py_strip (xs @ [c]) = dropWhile is_space xs @ [c]"
  by (simp add: py_strip_def dropWhile_append py_rstrip_snoc py_rstrip_def)

lemma not_space_v: "\<not> is_space CHR ''v''"
  by (simp add: is_space_def)

lemma audio_file_name_snoc:
  "audio_file_name env = (home env @ ''/.vox/recording_'' @ timestamp env @ ''.wa'') @ ''v''"
  by (simp add: audio_file_name_def BASE_FILE_def AUDIO_FORMAT_def)

lemma strip_audio_file_name_last:
  "py_strip (audio_file_name env) \<noteq> [] \<and> last (py_strip (audio_file_name env)) = CHR ''v''"
  unfolding audio_file_name_snoc by (simp only: py_strip_snoc[OF not_space_v]) simp

lemma strip_audio_file_name_markers:
  "py_strip (audio_file_name env) \<noteq> PID_FILE env"
  "py_strip (audio_file_name env) \<noteq> AUDIO_FILE_TRACKER env"
proof -
  have "last (PID_FILE env) = CHR ''d''" "last (AUDIO_FILE_TRACKER env) = CHR ''o''"
    by (simp_all add: PID_FILE_def AUDIO_FILE_TRACKER_def)
  with strip_audio_file_name_last[of env]
  show "py_strip (audio_file_name env) \<noteq> PID_FILE env"
    "py_strip (audio_file_name env) \<noteq> AUDIO_FILE_TRACKER env"
    by auto
qed

lemma markers_distinct: "PID_FILE env \<noteq> AUDIO_FILE_TRACKER env"
  by (simp add: PID_FILE_def AUDIO_FILE_TRACKER_def)

lemma strip_audio_file_name_id:
  "(case home env of [] \<Rightarrow> True | c # cs \<Rightarrow> \<not> is_space c) \<Longrightarrow>
   py_strip (audio_file_name env) = audio_file_name env"
  unfolding audio_file_name_snoc
  by (simp only: py_strip_snoc[OF not_space_v])
     (auto split: list.splits simp: is_space_def)

lemma np_concatenate_uniform:
  "bs \<noteq> [] \<Longrightarrow>
   np_concatenate (map (\<lambda>b. NDArray c (frames b)) bs) = Inr (NDArray c (concat (map frames bs)))"
  by (cases bs) (simp_all add: np_concatenate_def list_all_iff comp_def)


lemma begin_capture_fields:
  "fs (begin_capture env s) =
     (fs s)(PID_FILE env := None, AUDIO_FILE_TRACKER env \<mapsto> Text (audio_file_name env),
            PID_FILE env \<mapsto> Text (show_nat (pid env)))"
  "recording_process (begin_capture env s) =
     Some \<lparr>samplerate = SAMPLE_RATE, channels = CHANNELS, started = True\<rparr>"
  "audio_data (begin_capture env s) = []"
  "stop_event (begin_capture env s) = False"
  "clipboard (begin_capture env s) = clipboard s"
  "net_log (begin_capture env s) = net_log s"
  "DEBUG (begin_capture env s) = DEBUG s"
  by (simp_all add: begin_capture_def Let_def write_text_def print_out_def cleanup_fs
        cleanup_fields)

text \<open>The state in which \<open>stop_recording\<close> is entered when the wait ends without SIGINT.\<close>

lemma capture_done_fields:
  fixes env s
  defines "S \<equiv> deliver (post_blocks env) ((deliver (pre_blocks env) (begin_capture env s))\<lparr>stop_event := True\<rparr>)"
  shows "fs S = fs (begin_capture env s)"
    and "recording_process S = recording_process (begin_capture env s)"
    and "audio_data S = map (\<lambda>b. NDArray CHANNELS (frames b)) (pre_blocks env)"
    and "stop_event S"
    and "clipboard S = clipboard s"
    and "net_log S = net_log s"
    and "DEBUG S = DEBUG s"
  unfolding S_def
  by (simp_all add: deliver_fields deliver_stopped begin_capture_fields
        deliver_running[where st="\<lparr>samplerate = SAMPLE_RATE, channels = CHANNELS, started = True\<rparr>"])

lemma begin_capture_markers:
  "fs (begin_capture env s) (AUDIO_FILE_TRACKER env) = Some (Text (audio_file_name env))"
  "fs (begin_capture env s) (PID_FILE env) = Some (Text (show_nat (pid env)))"
  using markers_distinct[of env] by (simp_all add: begin_capture_fields(1))

lemma capture_done_ready:
  fixes env s
  defines "S \<equiv> deliver (post_blocks env) ((deliver (pre_blocks env) (begin_capture env s))\<lparr>stop_event := True\<rparr>)"
  shows "fs S (AUDIO_FILE_TRACKER env) = Some (Text (audio_file_name env))"
    and "fs S (PID_FILE env) \<noteq> None"
    and "recording_process S \<noteq> None"
proof -
  note F = capture_done_fields[of env s, folded S_def]
  show "fs S (AUDIO_FILE_TRACKER env) = Some (Text (audio_file_name env))"
    by (simp only: F(1) begin_capture_markers)
  show "fs S (PID_FILE env) \<noteq> None"
    by (simp only: F(1) begin_capture_markers) simp
  show "recording_process S \<noteq> None"
    by (simp only: F(2) begin_capture_fields(2)) simp
qed

lemma stop_recording_nonempty:
  assumes "fs S (PID_FILE env) \<noteq> None" and "recording_process S \<noteq> None"
    and "fs S (AUDIO_FILE_TRACKER env) = Some (Text txt)"
    and "audio_data S \<noteq> []" and "np_concatenate (audio_data S) = Inr d"
  shows "stop_recording env S =
           (Returned (py_strip txt),
            print_out ''Recording stopped.''
              (cleanup env (wavfile_write (py_strip txt) SAMPLE_RATE d
                 ((print_out ''> Stopping recording...'' S)\<lparr>stop_event := True\<rparr>))))"
  using assms by (simp add: stop_recording_def Let_def print_out_def read_text_def)

lemma stop_recording_empty:
  assumes "fs S (PID_FILE env) \<noteq> None" and "recording_process S \<noteq> None"
    and "fs S (AUDIO_FILE_TRACKER env) = Some (Text txt)"
    and "audio_data S = []"
  shows "stop_recording env S =
           (SysExit 1,
            cleanup env (print_out ''No audio data recorded.''
              ((print_out ''> Stopping recording...'' S)\<lparr>stop_event := True\<rparr>)))"
  using assms by (simp add: stop_recording_def Let_def print_out_def read_text_def)

lemma start_recording_interrupt:
  "stop env = Interrupt \<Longrightarrow>
   start_recording env s = signal_handler env (deliver (pre_blocks env) (begin_capture env s))"
  by (simp add: start_recording_def Let_def)

lemma start_recording_terminate:
  "stop env = Terminate \<Longrightarrow>
   start_recording env s = (Killed SIGTERM, deliver (pre_blocks env) (begin_capture env s))"
  by (simp add: start_recording_def Let_def)

lemma stop_cause_cases:
  obtains "stop env = Interrupt" | "stop env = Terminate"
    | "stop env = Timeout \<or> stop env = ManualStop"
  by (cases "stop env") auto

lemma start_recording_stop:
  "(stop env = Timeout \<or> stop env = ManualStop) \<Longrightarrow>
   start_recording env s =
     stop_recording env (deliver (post_blocks env)
       ((deliver (pre_blocks env) (begin_capture env s))\<lparr>stop_event := True\<rparr>))"
  by (cases "stop env") (simp_all add: start_recording_def Let_def)

lemma start_recording_nonempty_eq:
  assumes "stop env = Timeout \<or> stop env = ManualStop" and "pre_blocks env \<noteq> []"
  shows "start_recording env s =
           (Returned (py_strip (audio_file_name env)),
            print_out ''Recording stopped.''
              (cleanup env (wavfile_write (py_strip (audio_file_name env)) SAMPLE_RATE
                 (NDArray CHANNELS (concat (map frames (pre_blocks env))))
                 ((print_out ''> Stopping recording...''
                    (deliver (post_blocks env)
                      ((deliver (pre_blocks env) (begin_capture env s))\<lparr>stop_event := True\<rparr>)))
                  \<lparr>stop_event := True\<rparr>))))"
proof -
  let ?S = "deliver (post_blocks env)
       ((deliver (pre_blocks env) (begin_capture env s))\<lparr>stop_event := True\<rparr>)"
  have ad: "audio_data ?S = map (\<lambda>b. NDArray CHANNELS (frames b)) (pre_blocks env)"
    by (rule capture_done_fields(3))
  have ne: "audio_data ?S \<noteq> []" using assms(2) by (simp only: ad) simp
  have cc: "np_concatenate (audio_data ?S) =
              Inr (NDArray CHANNELS (concat (map frames (pre_blocks env))))"
    unfolding ad using assms(2) by (rule np_concatenate_uniform)
  show ?thesis
    unfolding start_recording_stop[OF assms(1)]
    by (rule stop_recording_nonempty[OF capture_done_ready(2) capture_done_ready(3)
          capture_done_ready(1) ne cc])
qed

lemma start_recording_empty_eq:
  assumes "stop env = Timeout \<or> stop env = ManualStop" and "pre_blocks env = []"
  shows "start_recording env s =
           (SysExit 1,
            cleanup env (print_out ''No audio data recorded.''
              ((print_out ''> Stopping recording...''
                 (deliver (post_blocks env)
                   ((deliver (pre_blocks env) (begin_capture env s))\<lparr>stop_event := True\<rparr>)))
               \<lparr>stop_event := True\<rparr>)))"
proof -
  let ?S = "deliver (post_blocks env)
       ((deliver (pre_blocks env) (begin_capture env s))\<lparr>stop_event := True\<rparr>)"
  have ad: "audio_data ?S = map (\<lambda>b. NDArray CHANNELS (frames b)) (pre_blocks env)"
    by (rule capture_done_fields(3))
  have em: "audio_data ?S = []" unfolding ad using assms(2) by simp
  show ?thesis
    unfolding start_recording_stop[OF assms(1)]
    by (rule stop_recording_empty[OF capture_done_ready(2) capture_done_ready(3)
          capture_done_ready(1) em])
qed

lemma fs_after_write_cleanup:
  assumes "a \<noteq> P" and "a \<noteq> T"
  shows "((f(P := None, T \<mapsto> x, P \<mapsto> y))(a \<mapsto> w))(P := None, T := None)
           = f(a \<mapsto> w, P := None, T := None)"
  using assms by (intro ext) simp

lemma fs_after_cleanup:
  "(f(P := None, T \<mapsto> x, P \<mapsto> y))(P := None, T := None) = f(P := None, T := None)"
  by (intro ext) simp

lemma start_recording_nonempty_fs:
  assumes "stop env = Timeout \<or> stop env = ManualStop" and "pre_blocks env \<noteq> []"
  shows "fs (snd (start_recording env s)) =
           (fs s)(py_strip (audio_file_name env) \<mapsto>
                    Wav SAMPLE_RATE CHANNELS (concat (map frames (pre_blocks env))),
                  PID_FILE env := None, AUDIO_FILE_TRACKER env := None)"
  unfolding start_recording_nonempty_eq[OF assms]
  by (simp add: print_out_def cleanup_fs wavfile_write_def capture_done_fields(1)
        begin_capture_fields(1)
        fs_after_write_cleanup[OF strip_audio_file_name_markers])

lemma start_recording_nonempty_rest:
  assumes "stop env = Timeout \<or> stop env = ManualStop" and "pre_blocks env \<noteq> []"
  shows "clipboard (snd (start_recording env s)) = clipboard s"
    and "net_log (snd (start_recording env s)) = net_log s"
    and "DEBUG (snd (start_recording env s)) = DEBUG s"
  unfolding start_recording_nonempty_eq[OF assms]
  by (simp_all add: print_out_def cleanup_fields wavfile_write_def capture_done_fields)

lemma start_recording_empty_fs:
  assumes "stop env = Timeout \<or> stop env = ManualStop" and "pre_blocks env = []"
  shows "fs (snd (start_recording env s)) =
           (fs s)(PID_FILE env := None, AUDIO_FILE_TRACKER env := None)"
  unfolding start_recording_empty_eq[OF assms]
  by (simp add: print_out_def cleanup_fs capture_done_fields(1) begin_capture_fields(1)
        fs_after_cleanup)

lemma start_recording_empty_rest:
  assumes "stop env = Timeout \<or> stop env = ManualStop" and "pre_blocks env = []"
  shows "clipboard (snd (start_recording env s)) = clipboard s"
    and "net_log (snd (start_recording env s)) = net_log s"
    and "''No audio data recorded.'' \<in> set (stdout (snd (start_recording env s)))"
  unfolding start_recording_empty_eq[OF assms]
  by (simp_all add: print_out_def cleanup_fields capture_done_fields)

lemma signal_handler_result:
  "fst (signal_handler env s) = SysExit 0"
  "fs (snd (signal_handler env s)) = (fs s)(PID_FILE env := None, AUDIO_FILE_TRACKER env := None)"
  "recording_process (snd (signal_handler env s)) = None"
  "audio_data (snd (signal_handler env s)) = audio_data s"
  "net_log (snd (signal_handler env s)) = net_log s"
  "clipboard (snd (signal_handler env s)) = clipboard s"
  by (simp_all add: signal_handler_def Let_def print_out_def cleanup_fs cleanup_fields)

lemma begin_capture_delivered:
  "audio_data (deliver (pre_blocks env) (begin_capture env s)) =
     map (\<lambda>b. NDArray CHANNELS (frames b)) (pre_blocks env)"
  using deliver_running[of "begin_capture env s"
      "\<lparr>samplerate = SAMPLE_RATE, channels = CHANNELS, started = True\<rparr>" "pre_blocks env"]
  by (simp add: begin_capture_fields)

lemma start_recording_audio_data:
  "audio_data (snd (start_recording env s)) =
     map (\<lambda>b. NDArray CHANNELS (frames b)) (pre_blocks env)"
proof (cases rule: stop_cause_cases[of env])
  case 1
  show ?thesis
    by (simp add: start_recording_interrupt[OF 1] signal_handler_result begin_capture_delivered)
next
  case 2
  show ?thesis
    by (simp add: start_recording_terminate[OF 2] begin_capture_delivered)
next
  case 3
  show ?thesis
  proof (cases "pre_blocks env = []")
    case True
    show ?thesis
      unfolding start_recording_empty_eq[OF 3 True]
      by (simp add: print_out_def cleanup_fields capture_done_fields(3))
  next
    case ne: False
    show ?thesis
      unfolding start_recording_nonempty_eq[OF 3 ne]
      by (simp add: print_out_def cleanup_fields wavfile_write_def capture_done_fields(3))
  qed
qed

section \<open>Basic facts about the transcription client\<close>

lemma raise_for_status_None_iff:
  "raise_for_status u r = None \<longleftrightarrow> \<not> (400 \<le> status_code r \<and> status_code r < 600)"
  by (auto simp add: raise_for_status_def)

lemma raise_for_status_2xx:
  "200 \<le> status_code r \<Longrightarrow> status_code r < 300 \<Longrightarrow> raise_for_status u r = None"
  by (simp add: raise_for_status_None_iff)

lemma url_listen_request: "url (listen_request m k d) = listen_url m"
  by (simp add: listen_request_def)

lemmas io_defs = write_text_def print_err_def print_out_def unlink_def

lemma transcribe_try_net_log:
  "net_log (snd (transcribe_try env af data s)) =
     net_log s @ [listen_request (DEEPGRAM_MODEL env) (DEEPGRAM_API_KEY env) data]"
  by (simp add: transcribe_try_def Let_def io_defs
        split: http_result.splits option.splits sum.splits json.splits)


lemma transcribe_try_http_error:
  assumes "http env = Responded r"
    and "raise_for_status (listen_url (DEEPGRAM_MODEL env)) r = Some msg"
  shows "fst (transcribe_try env af data s) = Inl (RequestException msg)"
    and "fs (snd (transcribe_try env af data s)) = fs s"
    and "clipboard (snd (transcribe_try env af data s)) = clipboard s"
  using assms by (simp_all add: transcribe_try_def Let_def url_listen_request)

lemma transcribe_try_not_json:
  assumes "http env = Responded r"
    and "raise_for_status (listen_url (DEEPGRAM_MODEL env)) r = None"
    and "json_result r = Inl msg"
  shows "fst (transcribe_try env af data s) = Inl (RequestException msg)"
    and "fs (snd (transcribe_try env af data s)) = (fs s)(af @ ''.json'' \<mapsto> Text [])"
    and "clipboard (snd (transcribe_try env af data s)) = clipboard s"
  using assms by (simp_all add: transcribe_try_def Let_def url_listen_request io_defs)

lemma transcribe_try_extract_failed:
  assumes "http env = Responded r"
    and "raise_for_status (listen_url (DEEPGRAM_MODEL env)) r = None"
    and "json_result r = Inr j"
    and "extract_transcript j = Inl e"
  shows "fst (transcribe_try env af data s) = Inl e"
    and "fs (snd (transcribe_try env af data s)) = (fs s)(af @ ''.json'' \<mapsto> Text (json_dumps j))"
    and "clipboard (snd (transcribe_try env af data s)) = clipboard s"
  using assms by (simp_all add: transcribe_try_def Let_def url_listen_request io_defs)

lemma transcribe_try_not_str:
  assumes "http env = Responded r"
    and "raise_for_status (listen_url (DEEPGRAM_MODEL env)) r = None"
    and "json_result r = Inr j"
    and "extract_transcript j = Inr t" and "\<forall>str. t \<noteq> JStr str"
  shows "fst (transcribe_try env af data s) = Inl AttributeError"
    and "fs (snd (transcribe_try env af data s)) =
           (fs s)(af @ ''.json'' \<mapsto> Text (json_dumps j), af @ ''.txt'' \<mapsto> Text [])"
    and "clipboard (snd (transcribe_try env af data s)) = clipboard s"
  using assms
  by (cases t; simp add: transcribe_try_def Let_def url_listen_request io_defs)+

lemma transcribe_try_success:
  assumes "http env = Responded r"
    and "raise_for_status (listen_url (DEEPGRAM_MODEL env)) r = None"
    and "json_result r = Inr j"
    and "extract_transcript j = Inr (JStr t)"
  shows "fst (transcribe_try env af data s) = Inr ()"
    and "fs (snd (transcribe_try env af data s)) =
           (fs s)(af @ ''.json'' \<mapsto> Text (json_dumps j),
                  af @ ''.txt'' \<mapsto> Text (py_rstrip t),
                  af @ ''.error'' := None)"
    and "clipboard (snd (transcribe_try env af data s)) = Some t"
  using assms by (simp_all add: transcribe_try_def Let_def url_listen_request io_defs)

lemma transcribe_missing:
  "af = [] \<or> fs s af = None \<Longrightarrow>
   transcribe env af s = (SysExit 1, print_err ''Error: Audio file missing or not set'' s)"
  by (auto simp add: transcribe_def)

lemma transcribe_net_log:
  assumes "af \<noteq> []" and "fs s af = Some data"
  shows "net_log (snd (transcribe env af s)) =
           net_log s @ [listen_request (DEEPGRAM_MODEL env) (DEEPGRAM_API_KEY env) data]"
  using assms
  by (simp add: transcribe_def Let_def split_beta transcribe_try_net_log io_defs
        split: sum.splits py_exception.splits)

lemma transcribe_success:
  assumes "af \<noteq> []" and "fs s af = Some data"
    and "http env = Responded r"
    and "raise_for_status (listen_url (DEEPGRAM_MODEL env)) r = None"
    and "json_result r = Inr j"
    and "extract_transcript j = Inr (JStr t)"
  shows "fst (transcribe env af s) = Returned ()"
    and "fs (snd (transcribe env af s)) =
           (fs s)(af @ ''.json'' \<mapsto> Text (json_dumps j),
                  af @ ''.txt'' \<mapsto> Text (py_rstrip t),
                  af @ ''.error'' := None)"
    and "clipboard (snd (transcribe env af s)) = Some t"
  using assms(1,2)
  by (simp_all add: transcribe_def Let_def split_beta transcribe_try_success[OF assms(3-6)]
        io_defs)

lemma transcribe_request_failed:
  assumes "af \<noteq> []" and "fs s af = Some data"
    and "fst (transcribe_try env af data
                (print_out (''> Transcribing with Deepgram API (model: '' @ DEEPGRAM_MODEL env
                               @ '')...'') s)) = Inl (RequestException msg)"
  shows "fst (transcribe env af s) = SysExit 1"
    and "fs (snd (transcribe env af s)) =
           (fs (snd (transcribe_try env af data
                (print_out (''> Transcribing with Deepgram API (model: '' @ DEEPGRAM_MODEL env
                               @ '')...'') s))))(af @ ''.error'' \<mapsto> Text msg)"
    and "clipboard (snd (transcribe env af s)) =
           clipboard (snd (transcribe_try env af data
                (print_out (''> Transcribing with Deepgram API (model: '' @ DEEPGRAM_MODEL env
                               @ '')...'') s)))"
    and "last (stderr (snd (transcribe env af s))) =
           ''Error: Transcription failed. Deepgram response saved in '' @ af @ ''.error''"
  using assms by (simp_all add: transcribe_def Let_def split_beta io_defs)


lemma transcribe_http_error:
  assumes "af \<noteq> []" and "fs s af = Some data"
    and "http env = Responded r"
    and "raise_for_status (listen_url (DEEPGRAM_MODEL env)) r = Some msg"
  shows "fst (transcribe env af s) = SysExit 1"
    and "fs (snd (transcribe env af s)) = (fs s)(af @ ''.error'' \<mapsto> Text msg)"
    and "clipboard (snd (transcribe env af s)) = clipboard s"
  using transcribe_request_failed[OF assms(1,2) transcribe_try_http_error(1)[OF assms(3,4)]]
  by (simp_all add: transcribe_try_http_error[OF assms(3,4)] io_defs)

lemma transcribe_not_json:
  assumes "af \<noteq> []" and "fs s af = Some data"
    and "http env = Responded r"
    and "raise_for_status (listen_url (DEEPGRAM_MODEL env)) r = None"
    and "json_result r = Inl msg"
  shows "fst (transcribe env af s) = SysExit 1"
    and "fs (snd (transcribe env af s)) =
           (fs s)(af @ ''.json'' \<mapsto> Text [], af @ ''.error'' \<mapsto> Text msg)"
    and "clipboard (snd (transcribe env af s)) = clipboard s"
  using transcribe_request_failed[OF assms(1,2) transcribe_try_not_json(1)[OF assms(3-5)]]
  by (simp_all add: transcribe_try_not_json[OF assms(3-5)] io_defs)

lemma transcribe_extract_failed:
  assumes "af \<noteq> []" and "fs s af = Some data"
    and "http env = Responded r"
    and "raise_for_status (listen_url (DEEPGRAM_MODEL env)) r = None"
    and "json_result r = Inr j"
    and "extract_transcript j = Inl e"
  shows "fst (transcribe env af s) =
           (if e = KeyError \<or> e = IndexError then SysExit 1
            else case e of RequestException m \<Rightarrow> SysExit 1 | _ \<Rightarrow> Uncaught e)"
    and "e = KeyError \<or> e = IndexError \<Longrightarrow>
           last (stderr (snd (transcribe env af s))) =
             ''Error: Failed to extract transcript from JSON, check '' @ af @ ''.json''"
    and "\<forall>m. e \<noteq> RequestException m \<Longrightarrow> fs (snd (transcribe env af s)) =
           (fs s)(af @ ''.json'' \<mapsto> Text (json_dumps j))"
    and "clipboard (snd (transcribe env af s)) = clipboard s"
  using assms(1,2)
  by (cases e; simp add: transcribe_def Let_def split_beta
        transcribe_try_extract_failed[OF assms(3-6)] io_defs)+

lemma transcribe_not_str:
  assumes "af \<noteq> []" and "fs s af = Some data"
    and "http env = Responded r"
    and "raise_for_status (listen_url (DEEPGRAM_MODEL env)) r = None"
    and "json_result r = Inr j"
    and "extract_transcript j = Inr t" and "\<forall>str. t \<noteq> JStr str"
  shows "fst (transcribe env af s) = Uncaught AttributeError"
    and "fs (snd (transcribe env af s)) =
           (fs s)(af @ ''.json'' \<mapsto> Text (json_dumps j), af @ ''.txt'' \<mapsto> Text [])"
    and "clipboard (snd (transcribe env af s)) = clipboard s"
  using assms(1,2)
  by (simp_all add: transcribe_def Let_def split_beta transcribe_try_not_str[OF assms(3-7)]
        io_defs)

lemma getitem_key_exceptions:
  "getitem_key v k = Inl e \<Longrightarrow> e = KeyError \<or> e = TypeError"
  by (cases v) (auto split: option.splits)

lemma getitem_0_exceptions:
  "getitem_0 v = Inl e \<Longrightarrow> e = IndexError \<or> e = KeyError \<or> e = TypeError"
  by (induction v rule: getitem_0.induct) auto

lemma extract_transcript_exceptions:
  "extract_transcript j = Inl e \<Longrightarrow> e = KeyError \<or> e = IndexError \<or> e = TypeError"
  unfolding extract_transcript_def bind_exc_def
  by (auto split: sum.splits dest: getitem_key_exceptions getitem_0_exceptions)

lemma transcribe_try_frame:
  assumes "p \<noteq> af @ ''.json''" and "p \<noteq> af @ ''.txt''" and "p \<noteq> af @ ''.error''"
  shows "fs (snd (transcribe_try env af data s)) p = fs s p"
  using assms
  by (simp add: transcribe_try_def Let_def io_defs
        split: http_result.splits option.splits sum.splits json.splits)

lemma transcribe_frame:
  assumes "p \<noteq> af @ ''.json''" and "p \<noteq> af @ ''.txt''" and "p \<noteq> af @ ''.error''"
  shows "fs (snd (transcribe env af s)) p = fs s p"
proof (cases "af = [] \<or> fs s af = None")
  case True
  then show ?thesis by (simp add: transcribe_missing io_defs)
next
  case False
  then obtain data where d: "af \<noteq> []" "fs s af = Some data" by auto
  show ?thesis
    using d assms
    by (simp add: transcribe_def Let_def split_beta transcribe_try_frame io_defs
          split: sum.splits py_exception.splits)
qed

lemma transcribe_exit_code:
  "fst (transcribe env af s) = Returned () \<or> exit_code (fst (transcribe env af s)) = 1"
proof (cases "af = [] \<or> fs s af = None")
  case True
  then show ?thesis by (simp add: transcribe_missing)
next
  case False
  then obtain data where d: "af \<noteq> []" "fs s af = Some data" by auto
  show ?thesis
    using d
    by (simp add: transcribe_def Let_def split_beta split: sum.splits py_exception.splits)
qed

lemma set_status_fields:
  "fs (set_status m g) = fs g"
  "net_log (set_status m g) = net_log g"
  "clipboard (set_status m g) = clipboard g"
  "stderr (set_status m g) = stderr g"
  "transcript (set_status m g) = transcript g"
  "debug_mode (set_status m g) = debug_mode g"
  "status_label (set_status m g) = m"
  "audio_data (set_status m g) = audio_data g"
  "stop_event (set_status m g) = stop_event g"
  by (simp_all add: set_status_def)

text \<open>The two \<open>try\<close> bodies, run on the same files with the same credential and model.\<close>

lemma try_bodies_agree:
  assumes "fs g = fs s" and "net_log g = net_log s"
    and "deepgram_model g = DEEPGRAM_MODEL env" and "deepgram_api_key g = DEEPGRAM_API_KEY env"
  shows "fst (VoxWindow_transcribe_try env af data g) = fst (transcribe_try env af data s)"
    and "fs (snd (VoxWindow_transcribe_try env af data g)) = fs (snd (transcribe_try env af data s))"
    and "net_log (snd (VoxWindow_transcribe_try env af data g))
           = net_log (snd (transcribe_try env af data s))"
    and "clipboard (snd (VoxWindow_transcribe_try env af data g)) = clipboard g"
  using assms
  by (simp_all add: VoxWindow_transcribe_try_def transcribe_try_def Let_def io_defs
        set_status_fields
        split: http_result.splits option.splits sum.splits json.splits)

lemma VoxWindow_try_transcript:
  assumes "http env = Responded r"
    and "raise_for_status (listen_url (deepgram_model g)) r = None"
    and "json_result r = Inr j"
    and "extract_transcript j = Inr t"
  shows "transcript (snd (VoxWindow_transcribe_try env af data g)) = t"
  using assms
  by (simp add: VoxWindow_transcribe_try_def Let_def io_defs set_status_def url_listen_request
        split: json.splits)

section \<open>The capture buffer\<close>

lemma VoxWindow_callback_audio_data:
  "audio_data (VoxWindow_callback a st g) =
     (if stop_event g then audio_data g else audio_data g @ [a])"
  "stop_event (VoxWindow_callback a st g) = stop_event g"
  by (simp_all add: VoxWindow_callback_def set_status_def Let_def)

text \<open>
  C9. The capture callback of either front end leaves the buffer alone once the stop
  event is set and otherwise appends exactly the delivered block at the end; it never
  changes the stop event. Hence any sequence of deliveries only extends the buffer, a
  sequence delivered after the stop event is set changes nothing, and at the end of a
  session the buffer holds exactly the blocks delivered before the event was set.
\<close>

theorem buffer_append_only:
  "(stop_event s \<longrightarrow> audio_data (callback indata status s) = audio_data s)
   \<and> (\<not> stop_event s \<longrightarrow> audio_data (callback indata status s) = audio_data s @ [indata])
   \<and> stop_event (callback indata status s) = stop_event s
   \<and> (stop_event g \<longrightarrow> audio_data (VoxWindow_callback indata status g) = audio_data g)
   \<and> (\<not> stop_event g \<longrightarrow>
        audio_data (VoxWindow_callback indata status g) = audio_data g @ [indata])
   \<and> stop_event (VoxWindow_callback indata status g) = stop_event g
   \<and> prefix (audio_data s) (audio_data (deliver bs s))
   \<and> (stop_event s \<longrightarrow> audio_data (deliver bs s) = audio_data s)
   \<and> audio_data (snd (start_recording env s)) =
        map (\<lambda>b. NDArray CHANNELS (frames b)) (pre_blocks env)"
  by (simp add: callback_audio_data callback_fields(2) VoxWindow_callback_audio_data
        deliver_prefix deliver_stopped start_recording_audio_data)

theorem buffer_append_only_witness:
  "stop_event (fresh_state\<lparr>stop_event := True\<rparr>)
   \<and> audio_data (callback (NDArray 1 [7]) [] (fresh_state\<lparr>stop_event := True\<rparr>)) = []
   \<and> \<not> stop_event fresh_state
   \<and> audio_data (callback (NDArray 1 [7]) [] fresh_state) = [NDArray 1 [7]]
   \<and> stop_event recorded_gui
   \<and> audio_data (VoxWindow_callback (NDArray 1 [7]) [] recorded_gui) = []
   \<and> audio_data (deliver sample_blocks (fresh_state\<lparr>stop_event := True\<rparr>)) = []
   \<and> audio_data (snd (start_recording sample_env fresh_state)) =
        [NDArray 1 [1, 2], NDArray 1 [3], NDArray 1 [4, 5]]"
  using buffer_append_only[of "fresh_state\<lparr>stop_event := True\<rparr>" "NDArray 1 [7]" "[]"
          recorded_gui sample_blocks sample_env]
        buffer_append_only[of fresh_state "NDArray 1 [7]" "[]" recorded_gui "[]" sample_env]
  by (simp add: fresh_state_def recorded_gui_def sample_env_def sample_blocks_def CHANNELS_def)

section \<open>The session as a whole\<close>

lemma sidecar_not_marker:
  "af @ ''.json'' \<noteq> PID_FILE env" "af @ ''.txt'' \<noteq> PID_FILE env"
  "af @ ''.error'' \<noteq> PID_FILE env"
  "af @ ''.json'' \<noteq> AUDIO_FILE_TRACKER env" "af @ ''.txt'' \<noteq> AUDIO_FILE_TRACKER env"
  "af @ ''.error'' \<noteq> AUDIO_FILE_TRACKER env"
  by (auto simp add: PID_FILE_def AUDIO_FILE_TRACKER_def dest: arg_cong[where f=last])

lemma strip_audio_file_name_nonempty: "py_strip (audio_file_name env) \<noteq> []"
  using strip_audio_file_name_last[of env] by simp


lemma main_interrupt:
  assumes "DEEPGRAM_API_KEY env \<noteq> []" and "stop env = Interrupt"
  shows "fst (main env s) = SysExit 0"
    and "fs (snd (main env s)) (PID_FILE env) = None"
    and "fs (snd (main env s)) (AUDIO_FILE_TRACKER env) = None"
    and "net_log (snd (main env s)) = net_log s"
  using assms
  by (simp_all add: main_def check_environment_def Let_def split_beta
        start_recording_interrupt signal_handler_result deliver_fields begin_capture_fields)

lemma main_empty:
  assumes "DEEPGRAM_API_KEY env \<noteq> []" and "stop env = Timeout \<or> stop env = ManualStop" and "pre_blocks env = []"
  shows "fst (main env s) = SysExit 1"
    and "fs (snd (main env s)) = (fs s)(PID_FILE env := None, AUDIO_FILE_TRACKER env := None)"
    and "net_log (snd (main env s)) = net_log s"
    and "clipboard (snd (main env s)) = clipboard s"
    and "''No audio data recorded.'' \<in> set (stdout (snd (main env s)))"
proof -
  have f: "fst (start_recording env s') = SysExit 1" for s'
    by (simp add: start_recording_empty_eq[OF assms(2,3)])
  show "fst (main env s) = SysExit 1"
    and "fs (snd (main env s)) = (fs s)(PID_FILE env := None, AUDIO_FILE_TRACKER env := None)"
    and "net_log (snd (main env s)) = net_log s"
    and "clipboard (snd (main env s)) = clipboard s"
    and "''No audio data recorded.'' \<in> set (stdout (snd (main env s)))"
    using assms(1)
    by (simp_all add: main_def check_environment_def Let_def split_beta f
          start_recording_empty_fs[OF assms(2,3)] start_recording_empty_rest[OF assms(2,3)])
qed

lemma main_recorded:
  assumes "DEEPGRAM_API_KEY env \<noteq> []" and "stop env = Timeout \<or> stop env = ManualStop" and "pre_blocks env \<noteq> []"
  shows "main env s =
           transcribe env (py_strip (audio_file_name env))
             (snd (start_recording env
                (if 1 < length (argv env) \<and> argv env ! 1 = ''debug''
                 then s\<lparr>DEBUG := True\<rparr> else s)))"
  using assms(1) strip_audio_file_name_nonempty[of env]
  by (simp add: main_def check_environment_def Let_def split_beta
        start_recording_nonempty_eq[OF assms(2,3)])

lemma start_recording_markers:
  assumes "stop env \<noteq> Terminate"
  shows "fs (snd (start_recording env s)) (PID_FILE env) = None"
    and "fs (snd (start_recording env s)) (AUDIO_FILE_TRACKER env) = None"
proof -
  have "fs (snd (start_recording env s)) (PID_FILE env) = None
          \<and> fs (snd (start_recording env s)) (AUDIO_FILE_TRACKER env) = None"
  proof (cases rule: stop_cause_cases[of env])
    case 1
    show ?thesis by (simp add: start_recording_interrupt[OF 1] signal_handler_result(2))
  next
    case 2
    with assms show ?thesis by simp
  next
    case 3
    show ?thesis
    proof (cases "pre_blocks env = []")
      case True
      show ?thesis unfolding start_recording_empty_fs[OF 3 True] by simp
    next
      case False
      show ?thesis unfolding start_recording_nonempty_fs[OF 3 False] by simp
    qed
  qed
  then show "fs (snd (start_recording env s)) (PID_FILE env) = None"
    and "fs (snd (start_recording env s)) (AUDIO_FILE_TRACKER env) = None" by simp_all
qed

lemma start_recording_never_uncaught: "fst (start_recording env s) \<noteq> Uncaught e"
proof (cases rule: stop_cause_cases[of env])
  case 1
  show ?thesis by (simp add: start_recording_interrupt[OF 1] signal_handler_result(1))
next
  case 2
  show ?thesis by (simp add: start_recording_terminate[OF 2])
next
  case 3
  show ?thesis
  proof (cases "pre_blocks env = []")
    case True
    show ?thesis by (simp add: start_recording_empty_eq[OF 3 True])
  next
    case False
    show ?thesis by (simp add: start_recording_nonempty_eq[OF 3 False])
  qed
qed

text \<open>
  SIGTERM during the wait: the process is killed in the state the wait had reached, in
  which both markers written by lines 102 to 113 are still there.
\<close>

lemma start_recording_killed:
  assumes "stop env = Terminate"
  shows "fst (start_recording env s) = Killed SIGTERM"
    and "fs (snd (start_recording env s)) (PID_FILE env) = Some (Text (show_nat (pid env)))"
    and "fs (snd (start_recording env s)) (AUDIO_FILE_TRACKER env) =
           Some (Text (audio_file_name env))"
    and "recording_process (snd (start_recording env s)) \<noteq> None"
    and "net_log (snd (start_recording env s)) = net_log s"
  by (simp_all add: start_recording_terminate[OF assms] deliver_fields begin_capture_markers
        begin_capture_fields(2,6))

lemma main_killed:
  assumes "DEEPGRAM_API_KEY env \<noteq> []" and "stop env = Terminate"
  shows "fst (main env s) = Killed SIGTERM"
    and "fs (snd (main env s)) (PID_FILE env) = Some (Text (show_nat (pid env)))"
    and "fs (snd (main env s)) (AUDIO_FILE_TRACKER env) = Some (Text (audio_file_name env))"
    and "net_log (snd (main env s)) = net_log s"
  using assms(1)
  by (simp_all add: main_def check_environment_def Let_def split_beta
        start_recording_killed[OF assms(2)])

lemma recorded_audio_present:
  assumes "stop env = Timeout \<or> stop env = ManualStop" and "pre_blocks env \<noteq> []"
  shows "fs (snd (start_recording env s)) (py_strip (audio_file_name env)) =
           Some (Wav SAMPLE_RATE CHANNELS (concat (map frames (pre_blocks env))))"
  unfolding start_recording_nonempty_fs[OF assms]
  using strip_audio_file_name_markers[of env] by simp

lemma main_markers:
  assumes "DEEPGRAM_API_KEY env \<noteq> []" and "stop env \<noteq> Terminate"
  shows "fs (snd (main env s)) (PID_FILE env) = None"
    and "fs (snd (main env s)) (AUDIO_FILE_TRACKER env) = None"
proof -
  have "fs (snd (main env s)) (PID_FILE env) = None
          \<and> fs (snd (main env s)) (AUDIO_FILE_TRACKER env) = None"
  proof (cases rule: stop_cause_cases[of env])
    case 1
    then show ?thesis using main_interrupt(2,3)[OF assms(1) 1] by simp
  next
    case 2
    with assms(2) show ?thesis by simp
  next
    case 3
    show ?thesis
    proof (cases "pre_blocks env = []")
      case True
      show ?thesis unfolding main_empty(2)[OF assms(1) 3 True] by simp
    next
      case False
      show ?thesis
        unfolding main_recorded[OF assms(1) 3 False]
        by (simp add: transcribe_frame sidecar_not_marker[symmetric]
              start_recording_markers[OF assms(2)])
    qed
  qed
  then show "fs (snd (main env s)) (PID_FILE env) = None"
    and "fs (snd (main env s)) (AUDIO_FILE_TRACKER env) = None" by simp_all
qed

text \<open>
  The stops the program handles. When the wait ends by Enter, by the timeout or by
  SIGINT, \<open>start_recording\<close> ends without an uncaught exception and in its final state
  neither \<open>.recordpid\<close> nor \<open>.recordaudio\<close> exists; the SIGINT handler removes both from
  any state; and the whole program leaves none once the credential check has passed,
  whatever the transcription does.
\<close>

lemma markers_removed_when_handled:
  assumes "stop env \<noteq> Terminate"
  shows "fs (snd (start_recording env s)) (PID_FILE env) = None
   \<and> fs (snd (start_recording env s)) (AUDIO_FILE_TRACKER env) = None
   \<and> (\<forall>e. fst (start_recording env s) \<noteq> Uncaught e)
   \<and> fs (snd (signal_handler env s' :: string outcome \<times> state)) (PID_FILE env) = None
   \<and> fs (snd (signal_handler env s' :: string outcome \<times> state)) (AUDIO_FILE_TRACKER env) = None
   \<and> (DEEPGRAM_API_KEY env \<noteq> [] \<longrightarrow>
        fs (snd (main env s)) (PID_FILE env) = None
        \<and> fs (snd (main env s)) (AUDIO_FILE_TRACKER env) = None)"
  by (simp add: start_recording_markers[OF assms] start_recording_never_uncaught
        signal_handler_result(2) main_markers[OF _ assms])

lemma sigterm_env_facts:
  "stop sigterm_env = Terminate" "DEEPGRAM_API_KEY sigterm_env \<noteq> []"
  "PID_FILE sigterm_env = ''/home/u/.recordpid''"
  "AUDIO_FILE_TRACKER sigterm_env = ''/home/u/.recordaudio''"
  "audio_file_name sigterm_env = sample_wav"
  "pid sigterm_env = 4242"
  by (simp_all add: sigterm_env_def sample_env_def PID_FILE_def AUDIO_FILE_TRACKER_def
        audio_file_name_def BASE_FILE_def AUDIO_FORMAT_def sample_wav_def)

lemma show_nat_4242: "show_nat 4242 = ''4242''"
  by code_simp

lemma sigint_env_facts:
  "stop (sample_env\<lparr>stop := Interrupt\<rparr>) = Interrupt"
  "PID_FILE (sample_env\<lparr>stop := Interrupt\<rparr>) = ''/home/u/.recordpid''"
  "AUDIO_FILE_TRACKER (sample_env\<lparr>stop := Interrupt\<rparr>) = ''/home/u/.recordaudio''"
  by (simp_all add: sample_env_def PID_FILE_def AUDIO_FILE_TRACKER_def)

text \<open>
  C1. The code at a run the marker invariant is about: the process receives SIGTERM
  while \<open>start_recording\<close> waits. \<open>vox.py\<close> installs a handler for SIGINT only (line
  207), so the process is killed without \<open>cleanup\<close>: starting from no markers at all,
  \<open>.recordpid\<close> (holding the process id) and \<open>.recordaudio\<close> (holding the audio path)
  both exist when the process is gone, for \<open>start_recording\<close> and for the program as a
  whole. With SIGINT in place of SIGTERM the same run leaves neither.
\<close>

theorem sigterm_leaves_markers:
  "stop sigterm_env = Terminate
   \<and> fs fresh_state ''/home/u/.recordpid'' = None
   \<and> fs fresh_state ''/home/u/.recordaudio'' = None
   \<and> fst (start_recording sigterm_env fresh_state) = Killed SIGTERM
   \<and> fs (snd (start_recording sigterm_env fresh_state)) ''/home/u/.recordpid''
        = Some (Text ''4242'')
   \<and> fs (snd (start_recording sigterm_env fresh_state)) ''/home/u/.recordaudio''
        = Some (Text sample_wav)
   \<and> fst (main sigterm_env fresh_state) = Killed SIGTERM
   \<and> fs (snd (main sigterm_env fresh_state)) ''/home/u/.recordpid'' = Some (Text ''4242'')
   \<and> fs (snd (main sigterm_env fresh_state)) ''/home/u/.recordaudio'' = Some (Text sample_wav)
   \<and> fs (snd (start_recording (sample_env\<lparr>stop := Interrupt\<rparr>) fresh_state))
        ''/home/u/.recordpid'' = None
   \<and> fs (snd (start_recording (sample_env\<lparr>stop := Interrupt\<rparr>) fresh_state))
        ''/home/u/.recordaudio'' = None"
proof -
  note K = start_recording_killed[OF sigterm_env_facts(1), of fresh_state,
      unfolded sigterm_env_facts show_nat_4242]
  note M = main_killed[OF sigterm_env_facts(2,1), of fresh_state,
      unfolded sigterm_env_facts show_nat_4242]
  have I: "stop (sample_env\<lparr>stop := Interrupt\<rparr>) \<noteq> Terminate" by simp
  note H = start_recording_markers[OF I, of fresh_state, unfolded sigint_env_facts]
  have F: "fs fresh_state ''/home/u/.recordpid'' = None"
    "fs fresh_state ''/home/u/.recordaudio'' = None"
    by (simp_all add: fresh_state_def)
  from K(1,2,3) M(1,2,3) H F sigterm_env_facts(1) show ?thesis by blast
qed

text \<open>
  C4. Empty buffer. If the wait ends by Enter or by the timeout and no block was
  delivered before, \<open>start_recording\<close> prints "No audio data recorded." and exits with
  status 1. The file system afterwards is the initial one without the two markers, so
  no waveform file was written; no request was sent, and the program as a whole exits
  with status 1 without any transcription.
\<close>

theorem empty_buffer_policy:
  assumes "pre_blocks env = []" and "stop env = Timeout \<or> stop env = ManualStop"
  shows "fst (start_recording env s) = SysExit 1
   \<and> ''No audio data recorded.'' \<in> set (stdout (snd (start_recording env s)))
   \<and> fs (snd (start_recording env s)) =
        (fs s)(PID_FILE env := None, AUDIO_FILE_TRACKER env := None)
   \<and> fs (snd (start_recording env s)) (py_strip (audio_file_name env)) =
        fs s (py_strip (audio_file_name env))
   \<and> net_log (snd (start_recording env s)) = net_log s
   \<and> (DEEPGRAM_API_KEY env \<noteq> [] \<longrightarrow>
         fst (main env s) = SysExit 1
         \<and> net_log (snd (main env s)) = net_log s
         \<and> clipboard (snd (main env s)) = clipboard s
         \<and> fs (snd (main env s)) = (fs s)(PID_FILE env := None, AUDIO_FILE_TRACKER env := None))"
proof -
  have "fst (start_recording env s) = SysExit 1"
    by (simp add: start_recording_empty_eq[OF assms(2,1)])
  moreover have "fs (snd (start_recording env s)) (py_strip (audio_file_name env)) =
        fs s (py_strip (audio_file_name env))"
    unfolding start_recording_empty_fs[OF assms(2,1)]
    using strip_audio_file_name_markers[of env] by simp
  ultimately show ?thesis
    by (simp add: start_recording_empty_fs[OF assms(2,1)]
          start_recording_empty_rest[OF assms(2,1)] main_empty[OF _ assms(2,1)])
qed

theorem empty_buffer_policy_witness:
  "pre_blocks (sample_env\<lparr>pre_blocks := []\<rparr>) = []
   \<and> (stop (sample_env\<lparr>pre_blocks := []\<rparr>) = Timeout \<or> stop (sample_env\<lparr>pre_blocks := []\<rparr>) = ManualStop)
   \<and> DEEPGRAM_API_KEY (sample_env\<lparr>pre_blocks := []\<rparr>) \<noteq> []
   \<and> fst (main (sample_env\<lparr>pre_blocks := []\<rparr>) fresh_state) = SysExit 1
   \<and> net_log (snd (main (sample_env\<lparr>pre_blocks := []\<rparr>) fresh_state)) = []
   \<and> fs (snd (main (sample_env\<lparr>pre_blocks := []\<rparr>) fresh_state)) sample_wav = None"
proof -
  have h: "pre_blocks (sample_env\<lparr>pre_blocks := []\<rparr>) = []"
    "stop (sample_env\<lparr>pre_blocks := []\<rparr>) = Timeout \<or> stop (sample_env\<lparr>pre_blocks := []\<rparr>) = ManualStop"
    "DEEPGRAM_API_KEY (sample_env\<lparr>pre_blocks := []\<rparr>) \<noteq> []"
    by (simp_all add: sample_env_def)
  show ?thesis
    using h empty_buffer_policy[OF h(1,2), of fresh_state]
    by (simp add: fresh_state_def)
qed

text \<open>
  C5. Non-empty happy path. If at least one block was delivered before the wait ends by
  Enter or by the timeout, and the home directory's path does not begin with white
  space, \<open>start_recording\<close> returns the path it chose at the start, and the file at that
  path is a waveform with sample rate 16000 and one channel whose samples are the blocks
  delivered before the stop, concatenated in delivery order. Blocks delivered later are
  not in it.
\<close>

theorem happy_path_waveform:
  assumes "pre_blocks env \<noteq> []" and "stop env = Timeout \<or> stop env = ManualStop"
    and "case home env of [] \<Rightarrow> True | c # cs \<Rightarrow> \<not> is_space c"
  shows "fst (start_recording env s) = Returned (audio_file_name env)
   \<and> fs (snd (start_recording env s)) (audio_file_name env) =
        Some (Wav 16000 1 (concat (map frames (pre_blocks env))))
   \<and> audio_file_name env = home env @ ''/.vox/recording_'' @ timestamp env @ ''.wav''"
proof -
  note id = strip_audio_file_name_id[OF assms(3)]
  have "fst (start_recording env s) = Returned (audio_file_name env)"
    by (simp add: start_recording_nonempty_eq[OF assms(2,1)] id)
  moreover have "fs (snd (start_recording env s)) (audio_file_name env) =
        Some (Wav 16000 1 (concat (map frames (pre_blocks env))))"
    using recorded_audio_present[OF assms(2,1), of s]
    by (simp add: id SAMPLE_RATE_def CHANNELS_def)
  moreover have "audio_file_name env = home env @ ''/.vox/recording_'' @ timestamp env @ ''.wav''"
    by (simp add: audio_file_name_def BASE_FILE_def AUDIO_FORMAT_def)
  ultimately show ?thesis by simp
qed

theorem happy_path_waveform_witness:
  "pre_blocks sample_env \<noteq> [] \<and> (stop sample_env = Timeout \<or> stop sample_env = ManualStop)
   \<and> (case home sample_env of [] \<Rightarrow> True | c # cs \<Rightarrow> \<not> is_space c)
   \<and> audio_file_name sample_env = sample_wav
   \<and> fst (start_recording sample_env fresh_state) = Returned sample_wav
   \<and> fs (snd (start_recording sample_env fresh_state)) sample_wav =
        Some (Wav 16000 1 [1, 2, 3, 4, 5])"
proof -
  have h: "pre_blocks sample_env \<noteq> []" "stop sample_env = Timeout \<or> stop sample_env = ManualStop"
    "case home sample_env of [] \<Rightarrow> True | c # cs \<Rightarrow> \<not> is_space c"
    by (simp_all add: sample_env_def sample_blocks_def is_space_def)
  have n: "audio_file_name sample_env = sample_wav"
    by (simp add: audio_file_name_def BASE_FILE_def AUDIO_FORMAT_def sample_env_def
          sample_wav_def)
  have c: "concat (map frames (pre_blocks sample_env)) = [1, 2, 3, 4, 5]"
    by (simp add: sample_env_def sample_blocks_def)
  note T = happy_path_waveform[OF h, of fresh_state, unfolded n c]
  from T have "fst (start_recording sample_env fresh_state) = Returned sample_wav"
    and "fs (snd (start_recording sample_env fresh_state)) sample_wav =
           Some (Wav 16000 1 [1, 2, 3, 4, 5])"
    by blast+
  with h n show ?thesis by blast
qed

section \<open>The two front ends compared\<close>

lemma VoxWindow_transcribe_missing:
  "af = [] \<or> fs g af = None \<Longrightarrow>
   VoxWindow_transcribe env af g =
     (Returned (), (set_status ''Error: Audio file missing or not set'' g)\<lparr>transcript := JStr []\<rparr>)"
  by (auto simp add: VoxWindow_transcribe_def)

lemma transcribe_try_success_inv:
  assumes "fst (transcribe_try env af data s) = Inr ()"
  shows "\<exists>r j t. http env = Responded r
           \<and> raise_for_status (listen_url (DEEPGRAM_MODEL env)) r = None
           \<and> json_result r = Inr j \<and> extract_transcript j = Inr (JStr t)"
  using assms
  by (simp add: transcribe_try_def Let_def url_listen_request
        split: http_result.splits option.splits sum.splits json.splits)

lemma extract_transcript_json: "extract_transcript (transcript_json t) = Inr (JStr t)"
  by (simp add: extract_transcript_def transcript_json_def bind_exc_def)

lemma io_fields:
  "fs (print_out m s) = fs s" "net_log (print_out m s) = net_log s"
  "clipboard (print_out m s) = clipboard s"
  "fs (print_err m s) = fs s" "net_log (print_err m s) = net_log s"
  "clipboard (print_err m s) = clipboard s"
  "fs (write_text p txt s) = (fs s)(p \<mapsto> Text txt)" "net_log (write_text p txt s) = net_log s"
  "clipboard (write_text p txt s) = clipboard s"
  "fs (unlink p s) = (fs s)(p := None)" "net_log (unlink p s) = net_log s"
  "clipboard (unlink p s) = clipboard s"
  by (simp_all add: io_defs)

lemma gui_io_fields:
  "transcript (print_err m g) = transcript g" "status_label (print_err m g) = status_label g"
  "transcript (write_text p txt g) = transcript g"
  "status_label (write_text p txt g) = status_label g"
  by (simp_all add: io_defs)

text \<open>
  The two \<open>transcribe\<close> functions run from states that agree on the files and on the
  requests sent so far, with the same credential and model.
\<close>

lemma transcribe_simulation:
  assumes "fs g = fs s" and "net_log g = net_log s"
    and "deepgram_model g = DEEPGRAM_MODEL env" and "deepgram_api_key g = DEEPGRAM_API_KEY env"
  shows "net_log (snd (VoxWindow_transcribe env af g)) = net_log (snd (transcribe env af s))
    \<and> fs (snd (VoxWindow_transcribe env af g)) = fs (snd (transcribe env af s))
    \<and> clipboard (snd (VoxWindow_transcribe env af g)) = clipboard g
    \<and> (\<forall>e. fst (transcribe env af s) = Uncaught e \<longrightarrow>
           fst (VoxWindow_transcribe env af g) = Uncaught e)
    \<and> (\<forall>n. fst (transcribe env af s) = SysExit n \<longrightarrow>
           n = 1 \<and> fst (VoxWindow_transcribe env af g) = Returned ()
           \<and> transcript (snd (VoxWindow_transcribe env af g)) = JStr []
           \<and> take 6 (status_label (snd (VoxWindow_transcribe env af g))) = ''Error:'')
    \<and> (fst (transcribe env af s) = Returned () \<longrightarrow>
           fst (VoxWindow_transcribe env af g) = Returned ()
           \<and> (\<exists>t. transcript (snd (VoxWindow_transcribe env af g)) = JStr t
                  \<and> clipboard (snd (transcribe env af s)) = Some t))"
proof (cases "af = [] \<or> fs s af = None")
  case True
  moreover from True assms(1) have "af = [] \<or> fs g af = None" by simp
  ultimately show ?thesis
    using assms(1,2)
    by (simp add: transcribe_missing VoxWindow_transcribe_missing io_fields set_status_fields
          set_status_def)
next
  case False
  then obtain data where d: "af \<noteq> []" "fs s af = Some data" by auto
  have dg: "fs g af = Some data" using d assms(1) by simp
  let ?s1 = "print_out (''> Transcribing with Deepgram API (model: '' @ DEEPGRAM_MODEL env
                               @ '')...'') s"
  let ?R = "transcribe_try env af data ?s1"
  let ?G = "VoxWindow_transcribe_try env af data g"
  have a1: "fs g = fs ?s1" "net_log g = net_log ?s1"
    using assms(1,2) by (simp_all add: io_fields)
  note A = try_bodies_agree[OF a1 assms(3,4), of af data]
  show ?thesis
  proof (cases "fst ?R")
    case (Inr u)
    from transcribe_try_success_inv[OF Inr[simplified]] obtain r' j t where
      h: "http env = Responded r'" "raise_for_status (listen_url (DEEPGRAM_MODEL env)) r' = None"
         "json_result r' = Inr j" "extract_transcript j = Inr (JStr t)"
      by blast
    have g2: "transcript (snd ?G) = JStr t"
      using VoxWindow_try_transcript[of env r' g j "JStr t" af data] h assms(3) by simp
    have c: "clipboard (snd (transcribe env af s)) = Some t"
      by (rule transcribe_success(3)[OF d h])
    have gi: "fst ?G = Inr u" using A(1) Inr by simp
    show ?thesis
      using d dg Inr gi g2 c A(2,3,4)
      by (simp add: transcribe_def VoxWindow_transcribe_def Let_def split_beta)
  next
    case (Inl x)
    have gi: "fst ?G = Inl x" using A(1) Inl by simp
    show ?thesis
      using d dg Inl gi A(2,3,4)
      by (cases x)
         (simp_all add: transcribe_def VoxWindow_transcribe_def Let_def split_beta io_fields
            gui_io_fields set_status_fields set_status_def)
  qed
qed

lemma ok_response_simps:
  "raise_for_status u (ok_response raw j) = None"
  "json_result (ok_response raw j) = Inr j"
  "content (ok_response raw j) = raw"
  "status_code (ok_response raw j) = 200"
  by (simp_all add: ok_response_def raise_for_status_def)

lemma sample_state_facts:
  "sample_wav \<noteq> []"
  "fs recorded_state sample_wav = Some (Wav 16000 1 [1, 2, 3, 4, 5])"
  "fs recorded_state (sample_wav @ ''.json'') = None"
  "fs recorded_state (sample_wav @ ''.txt'') = None"
  "fs recorded_state (sample_wav @ ''.error'') = None"
  "clipboard recorded_state = None"
  "net_log recorded_state = []"
  "stderr recorded_state = []"
  "DEBUG recorded_state = False"
  "fs recorded_gui = fs recorded_state"
  "net_log recorded_gui = net_log recorded_state"
  "clipboard recorded_gui = None"
  by (simp_all add: sample_wav_def recorded_state_def recorded_gui_def fresh_state_def)

lemma sample_env_facts:
  "DEEPGRAM_API_KEY sample_env = ''secret''" "DEEPGRAM_MODEL sample_env = ''nova-3''"
  "deepgram_model recorded_gui = DEEPGRAM_MODEL sample_env"
  "deepgram_api_key recorded_gui = DEEPGRAM_API_KEY sample_env"
  "http sample_env = Responded (ok_response
      ''{\"results\":{\"channels\":[{\"alternatives\":[{\"transcript\":\"hello world\"}]}]}}''
      (transcript_json ''hello world''))"
  by (simp_all add: sample_env_def recorded_gui_def)

lemma dumps_empty_results: "json_dumps (JObj [(''results'', JObj [])]) = ''{\"results\": {}}''"
  by (simp add: json_dumps_def encode_str_def escape_char_def newline_indent_def
        item_separator_def)

lemma dumps_null_results: "json_dumps (JObj [(''results'', JNull)]) = ''{\"results\": null}''"
  by (simp add: json_dumps_def encode_str_def escape_char_def newline_indent_def
        item_separator_def)

lemma rstrip_hello: "py_rstrip ''hello world '' = ''hello world''"
  "py_rstrip ''hello world'' = ''hello world''"
  by (simp_all add: py_rstrip_def is_space_def)


text \<open>
  C10 (as amended). Run on the same audio file with the same credential, model and
  answer, from states that agree on the files and on the requests already sent, the two
  \<open>transcribe\<close> functions send the same request and leave the same files (the three
  sidecar files among them); both fail with the same uncaught exception or neither does;
  where the terminal one exits (always with status 1) the graphical one returns with an
  empty transcript and an error text in the status line; where the terminal one returns,
  so does the graphical one, holding in \<open>self.transcript\<close> the string the terminal one
  put on the clipboard. They differ in one more respect than the surfacing of failure:
  the graphical one never touches the clipboard.
\<close>

theorem front_ends_agree:
  assumes "fs g = fs s" and "net_log g = net_log s"
    and "deepgram_model g = DEEPGRAM_MODEL env" and "deepgram_api_key g = DEEPGRAM_API_KEY env"
  shows "net_log (snd (VoxWindow_transcribe env af g)) = net_log (snd (transcribe env af s))
    \<and> fs (snd (VoxWindow_transcribe env af g)) = fs (snd (transcribe env af s))
    \<and> clipboard (snd (VoxWindow_transcribe env af g)) = clipboard g
    \<and> (\<forall>e. fst (transcribe env af s) = Uncaught e \<longrightarrow>
           fst (VoxWindow_transcribe env af g) = Uncaught e)
    \<and> (\<forall>n. fst (transcribe env af s) = SysExit n \<longrightarrow>
           n = 1 \<and> fst (VoxWindow_transcribe env af g) = Returned ()
           \<and> transcript (snd (VoxWindow_transcribe env af g)) = JStr []
           \<and> take 6 (status_label (snd (VoxWindow_transcribe env af g))) = ''Error:'')
    \<and> (fst (transcribe env af s) = Returned () \<longrightarrow>
           fst (VoxWindow_transcribe env af g) = Returned ()
           \<and> (\<exists>t. transcript (snd (VoxWindow_transcribe env af g)) = JStr t
                  \<and> clipboard (snd (transcribe env af s)) = Some t))"
  using assms by (rule transcribe_simulation)

lemma sample_run_succeeds:
  "fst (transcribe sample_env sample_wav recorded_state) = Returned ()"
  "clipboard (snd (transcribe sample_env sample_wav recorded_state)) = Some ''hello world''"
  "fs (snd (transcribe sample_env sample_wav recorded_state)) (sample_wav @ ''.txt'') =
     Some (Text ''hello world'')"
  using transcribe_success[OF sample_state_facts(1,2) sample_env_facts(5)
          ok_response_simps(1) ok_response_simps(2) extract_transcript_json]
  by (simp_all add: rstrip_hello)

theorem front_ends_agree_witness:
  "fs recorded_gui = fs recorded_state \<and> net_log recorded_gui = net_log recorded_state
   \<and> deepgram_model recorded_gui = DEEPGRAM_MODEL sample_env
   \<and> deepgram_api_key recorded_gui = DEEPGRAM_API_KEY sample_env
   \<and> fst (transcribe sample_env sample_wav recorded_state) = Returned ()
   \<and> fs (snd (VoxWindow_transcribe sample_env sample_wav recorded_gui))
        = fs (snd (transcribe sample_env sample_wav recorded_state))
   \<and> net_log (snd (VoxWindow_transcribe sample_env sample_wav recorded_gui))
        = net_log (snd (transcribe sample_env sample_wav recorded_state))
   \<and> fst (VoxWindow_transcribe sample_env sample_wav recorded_gui) = Returned ()"
  using front_ends_agree[OF sample_state_facts(10,11) sample_env_facts(3,4), of sample_wav]
    sample_state_facts(10,11) sample_env_facts(3,4) sample_run_succeeds(1)
  by simp

text \<open>
  Against C10 as stated: on the successful run of the specification's example both
  functions return, yet the terminal one has put the transcript on the clipboard and
  the graphical one has left the clipboard empty.
\<close>

theorem front_ends_differ_on_clipboard:
  "fst (transcribe sample_env sample_wav recorded_state) = Returned ()
   \<and> fst (VoxWindow_transcribe sample_env sample_wav recorded_gui) = Returned ()
   \<and> clipboard recorded_state = clipboard recorded_gui
   \<and> clipboard (snd (transcribe sample_env sample_wav recorded_state)) = Some ''hello world''
   \<and> clipboard (snd (VoxWindow_transcribe sample_env sample_wav recorded_gui)) = None"
  using transcribe_simulation[OF sample_state_facts(10,11) sample_env_facts(3,4), of sample_wav]
    sample_run_succeeds(1,2) sample_state_facts(6,12)
  by simp

text \<open>
  C7. Missing audio. When the path is empty or names no file, \<open>transcribe\<close> prints the
  error and exits with status 1 at once: no request is sent and the file system, hence
  each of the three sidecar files, is as before. The graphical front end does the same
  except that it reports in the status line and returns.
\<close>

theorem missing_audio_fails_fast:
  "(af = [] \<or> fs s af = None \<longrightarrow>
      fst (transcribe env af s) = SysExit 1
      \<and> stderr (snd (transcribe env af s)) = stderr s @ [''Error: Audio file missing or not set'']
      \<and> net_log (snd (transcribe env af s)) = net_log s
      \<and> fs (snd (transcribe env af s)) = fs s
      \<and> clipboard (snd (transcribe env af s)) = clipboard s)
   \<and> (af = [] \<or> fs g af = None \<longrightarrow>
      fst (VoxWindow_transcribe env af g) = Returned ()
      \<and> status_label (snd (VoxWindow_transcribe env af g)) = ''Error: Audio file missing or not set''
      \<and> transcript (snd (VoxWindow_transcribe env af g)) = JStr []
      \<and> net_log (snd (VoxWindow_transcribe env af g)) = net_log g
      \<and> fs (snd (VoxWindow_transcribe env af g)) = fs g
      \<and> clipboard (snd (VoxWindow_transcribe env af g)) = clipboard g)"
  by (simp add: transcribe_missing VoxWindow_transcribe_missing io_defs set_status_def)

theorem missing_audio_fails_fast_witness:
  "fs fresh_state sample_wav = None
   \<and> fst (transcribe sample_env sample_wav fresh_state) = SysExit 1
   \<and> net_log (snd (transcribe sample_env sample_wav fresh_state)) = []
   \<and> fs (snd (transcribe sample_env sample_wav fresh_state)) (sample_wav @ ''.json'') = None
   \<and> fs (snd (transcribe sample_env sample_wav fresh_state)) (sample_wav @ ''.txt'') = None
   \<and> fs (snd (transcribe sample_env sample_wav fresh_state)) (sample_wav @ ''.error'') = None
   \<and> fs (recorded_gui\<lparr>fs := Map.empty\<rparr>) sample_wav = None
   \<and> fst (VoxWindow_transcribe sample_env sample_wav (recorded_gui\<lparr>fs := Map.empty\<rparr>))
        = Returned ()
   \<and> net_log (snd (VoxWindow_transcribe sample_env sample_wav (recorded_gui\<lparr>fs := Map.empty\<rparr>)))
        = []"
proof -
  have h: "fs fresh_state sample_wav = None" "fs (recorded_gui\<lparr>fs := Map.empty\<rparr>) sample_wav = None"
    by (simp_all add: fresh_state_def)
  show ?thesis
    using h missing_audio_fails_fast[of sample_wav fresh_state sample_env
                "recorded_gui\<lparr>fs := Map.empty\<rparr>"]
    by (simp add: fresh_state_def recorded_gui_def)
qed

section \<open>Outcomes of a transcription\<close>

lemma py_rstrip_trimmed: "py_rstrip t = [] \<or> \<not> is_space (last (py_rstrip t))"
proof (cases "dropWhile is_space (rev t)")
  case Nil
  then show ?thesis by (simp add: py_rstrip_def)
next
  case (Cons c cs)
  then have "\<not> is_space c" by (metis hd_dropWhile list.sel(1) list.distinct(1))
  with Cons show ?thesis by (simp add: py_rstrip_def)
qed

lemma py_rstrip_split: "t = py_rstrip t @ rev (takeWhile is_space (rev t))"
proof -
  have "rev (dropWhile is_space (rev t)) @ rev (takeWhile is_space (rev t))
          = rev (takeWhile is_space (rev t) @ dropWhile is_space (rev t))"
    by (simp only: rev_append)
  also have "\<dots> = t" by (simp only: takeWhile_dropWhile_id rev_rev_ident)
  finally show ?thesis by (simp only: py_rstrip_def)
qed

lemma py_rstrip_dropped: "list_all is_space (rev (takeWhile is_space (rev t)))"
  by (simp add: list_all_iff) (meson set_takeWhileD)

lemma VoxWindow_transcribe_success:
  assumes "af \<noteq> []" and "fs g af = Some data"
    and "http env = Responded r"
    and "raise_for_status (listen_url (deepgram_model g)) r = None"
    and "json_result r = Inr j"
    and "extract_transcript j = Inr (JStr t)"
  shows "fst (VoxWindow_transcribe env af g) = Returned ()"
    and "fs (snd (VoxWindow_transcribe env af g)) =
           (fs g)(af @ ''.json'' \<mapsto> Text (json_dumps j),
                  af @ ''.txt'' \<mapsto> Text (py_rstrip t),
                  af @ ''.error'' := None)"
    and "clipboard (snd (VoxWindow_transcribe env af g)) = clipboard g"
    and "transcript (snd (VoxWindow_transcribe env af g)) = JStr t"
    and "status_label (snd (VoxWindow_transcribe env af g)) =
           ''Transcript saved to '' @ af @ ''.txt. Click Copy to copy.''"
  using assms
  by (simp_all add: VoxWindow_transcribe_def VoxWindow_transcribe_try_def Let_def
        url_listen_request io_defs set_status_def)

lemma variant_env_facts:
  "http trailing_space_env = Responded (ok_response
        ''{\"results\":{\"channels\":[{\"alternatives\":[{\"transcript\":\"hello world \"}]}]}}''
        (transcript_json ''hello world ''))"
  "http empty_results_env =
     Responded (ok_response ''{\"results\":{}}'' (JObj [(''results'', JObj [])]))"
  "http null_results_env =
     Responded (ok_response ''{\"results\":null}'' (JObj [(''results'', JNull)]))"
  "http server_error_env = Responded server_error_response"
  "DEEPGRAM_MODEL trailing_space_env = ''nova-3''" "DEEPGRAM_MODEL empty_results_env = ''nova-3''"
  "DEEPGRAM_MODEL null_results_env = ''nova-3''" "DEEPGRAM_MODEL server_error_env = ''nova-3''"
  by (simp_all add: trailing_space_env_def empty_results_env_def null_results_env_def
        server_error_env_def sample_env_def)

lemma extract_samples:
  "extract_transcript (JObj [(''results'', JObj [])]) = Inl KeyError"
  "extract_transcript (JObj [(''results'', JNull)]) = Inl TypeError"
  by (simp_all add: extract_transcript_def bind_exc_def)

lemma server_error_raises:
  "raise_for_status u server_error_response =
     Some (show_nat 500 @ '' Server Error: Internal Server Error for url: '' @ u)"
  by (simp add: raise_for_status_def server_error_response_def)

lemma transcribe_try_stderr:
  "\<not> DEBUG s \<Longrightarrow> stderr (snd (transcribe_try env af data s)) = stderr s"
  by (simp add: transcribe_try_def Let_def io_defs
        split: http_result.splits option.splits sum.splits json.splits)

lemma null_results_run:
  "fst (transcribe null_results_env sample_wav recorded_state) = Uncaught TypeError"
  "stderr (snd (transcribe null_results_env sample_wav recorded_state)) = []"
  "fs (snd (transcribe null_results_env sample_wav recorded_state)) (sample_wav @ ''.json'') =
     Some (Text ''{\"results\": null}'')"
  "fs (snd (transcribe null_results_env sample_wav recorded_state)) (sample_wav @ ''.txt'') = None"
proof -
  note E = transcribe_extract_failed[OF sample_state_facts(1,2) variant_env_facts(3)
      ok_response_simps(1) ok_response_simps(2) extract_samples(2)]
  show "fst (transcribe null_results_env sample_wav recorded_state) = Uncaught TypeError"
    using E(1) by simp
  show "fs (snd (transcribe null_results_env sample_wav recorded_state)) (sample_wav @ ''.json'') =
     Some (Text ''{\"results\": null}'')"
    using E(3) by (simp add: dumps_null_results)
  show "fs (snd (transcribe null_results_env sample_wav recorded_state)) (sample_wav @ ''.txt'') = None"
    using E(3) by (simp add: sample_state_facts)
  show "stderr (snd (transcribe null_results_env sample_wav recorded_state)) = []"
    using sample_state_facts(1,2,8,9)
      transcribe_try_extract_failed(1)[OF variant_env_facts(3)
        ok_response_simps(1) ok_response_simps(2) extract_samples(2), where af=sample_wav]
    by (simp add: transcribe_def Let_def split_beta transcribe_try_stderr io_defs)
qed


lemma variant_gui_facts:
  "deepgram_model recorded_gui = DEEPGRAM_MODEL null_results_env"
  "deepgram_api_key recorded_gui = DEEPGRAM_API_KEY null_results_env"
  "deepgram_model recorded_gui = DEEPGRAM_MODEL trailing_space_env"
  "deepgram_api_key recorded_gui = DEEPGRAM_API_KEY trailing_space_env"
  by (simp_all add: trailing_space_env_def null_results_env_def sample_env_def recorded_gui_def)

lemma empty_results_run:
  "fst (transcribe empty_results_env sample_wav recorded_state) = SysExit 1"
  "stderr (snd (transcribe empty_results_env sample_wav recorded_state)) =
     [''Error: Failed to extract transcript from JSON, check '' @ sample_wav @ ''.json'']"
  "fs (snd (transcribe empty_results_env sample_wav recorded_state)) (sample_wav @ ''.json'') =
     Some (Text ''{\"results\": {}}'')"
  "fs (snd (transcribe empty_results_env sample_wav recorded_state)) (sample_wav @ ''.txt'') = None"
proof -
  note E = transcribe_extract_failed[OF sample_state_facts(1,2) variant_env_facts(2)
      ok_response_simps(1) ok_response_simps(2) extract_samples(1)]
  show "fst (transcribe empty_results_env sample_wav recorded_state) = SysExit 1"
    using E(1) by simp
  show "fs (snd (transcribe empty_results_env sample_wav recorded_state)) (sample_wav @ ''.json'') =
     Some (Text ''{\"results\": {}}'')"
    using E(3) by (simp add: dumps_empty_results)
  show "fs (snd (transcribe empty_results_env sample_wav recorded_state)) (sample_wav @ ''.txt'') = None"
    using E(3) by (simp add: sample_state_facts)
  show "stderr (snd (transcribe empty_results_env sample_wav recorded_state)) =
     [''Error: Failed to extract transcript from JSON, check '' @ sample_wav @ ''.json'']"
    using sample_state_facts(1,2,8,9)
      transcribe_try_extract_failed(1)[OF variant_env_facts(2)
        ok_response_simps(1) ok_response_simps(2) extract_samples(1), where af=sample_wav]
    by (simp add: transcribe_def Let_def split_beta transcribe_try_stderr io_defs)
qed

text \<open>
  C6. The code at a response with status 200 and body \<open>{"results":null}\<close>, which lacks
  the transcript field: subscripting \<open>None\<close> raises \<open>TypeError\<close>, which neither
  \<open>except\<close> clause catches. \<open>transcribe\<close> ends with that uncaught exception and has
  printed no error message of its own, although the JSON sidecar is there and the text
  sidecar is not; the graphical front end ends the same way with its status line
  untouched. For the body \<open>{"results":{}}\<close> of the specification's example the handler
  does run: status 1 and the message.
\<close>

theorem null_results_uncaught:
  "http null_results_env =
     Responded (ok_response ''{\"results\":null}'' (JObj [(''results'', JNull)]))
   \<and> fst (transcribe null_results_env sample_wav recorded_state) = Uncaught TypeError
   \<and> stderr (snd (transcribe null_results_env sample_wav recorded_state)) = []
   \<and> fs (snd (transcribe null_results_env sample_wav recorded_state)) (sample_wav @ ''.json'')
        = Some (Text ''{\"results\": null}'')
   \<and> fs (snd (transcribe null_results_env sample_wav recorded_state)) (sample_wav @ ''.txt'')
        = None
   \<and> fst (VoxWindow_transcribe null_results_env sample_wav recorded_gui) = Uncaught TypeError
   \<and> fst (transcribe empty_results_env sample_wav recorded_state) = SysExit 1
   \<and> stderr (snd (transcribe empty_results_env sample_wav recorded_state)) =
        [''Error: Failed to extract transcript from JSON, check '' @ sample_wav @ ''.json'']
   \<and> fs (snd (transcribe empty_results_env sample_wav recorded_state)) (sample_wav @ ''.json'')
        = Some (Text ''{\"results\": {}}'')
   \<and> fs (snd (transcribe empty_results_env sample_wav recorded_state)) (sample_wav @ ''.txt'')
        = None"
  using transcribe_simulation[OF sample_state_facts(10,11) variant_gui_facts(1,2),
          of sample_wav]
    null_results_run empty_results_run variant_env_facts(3)
  by simp

text \<open>
  C3 (as amended). For a response with a 2xx status whose JSON body has a string at
  \<open>results.channels[0].alternatives[0].transcript\<close>, \<open>transcribe\<close> returns; the text
  sidecar holds that string without its trailing white space (what was cut off is white
  space only, and what is left does not end in white space); the error sidecar does not
  exist afterwards; and the clipboard holds the string as extracted, not trimmed. The
  graphical front end writes the same text sidecar and removes the error sidecar, keeps
  the extracted string in \<open>self.transcript\<close> and leaves the clipboard as it was.
\<close>

theorem transcription_success:
  assumes "af \<noteq> []" and "http env = Responded r"
    and "200 \<le> status_code r" and "status_code r < 300"
    and "json_result r = Inr j" and "extract_transcript j = Inr (JStr t)"
  shows "(fs s af = Some data \<longrightarrow>
       fst (transcribe env af s) = Returned ()
       \<and> fs (snd (transcribe env af s)) (af @ ''.txt'') = Some (Text (py_rstrip t))
       \<and> clipboard (snd (transcribe env af s)) = Some t
       \<and> fs (snd (transcribe env af s)) (af @ ''.error'') = None
       \<and> fs (snd (transcribe env af s)) (af @ ''.json'') = Some (Text (json_dumps j)))
   \<and> (fs g af = Some data \<longrightarrow>
       fst (VoxWindow_transcribe env af g) = Returned ()
       \<and> fs (snd (VoxWindow_transcribe env af g)) (af @ ''.txt'') = Some (Text (py_rstrip t))
       \<and> transcript (snd (VoxWindow_transcribe env af g)) = JStr t
       \<and> clipboard (snd (VoxWindow_transcribe env af g)) = clipboard g
       \<and> fs (snd (VoxWindow_transcribe env af g)) (af @ ''.error'') = None)
   \<and> (py_rstrip t = [] \<or> \<not> is_space (last (py_rstrip t)))
   \<and> (\<exists>ws. t = py_rstrip t @ ws \<and> list_all is_space ws)"
proof -
  have ok: "raise_for_status u r = None" for u
    using assms(3,4) by (rule raise_for_status_2xx)
  have a: "fst (transcribe env af s) = Returned ()
       \<and> fs (snd (transcribe env af s)) (af @ ''.txt'') = Some (Text (py_rstrip t))
       \<and> clipboard (snd (transcribe env af s)) = Some t
       \<and> fs (snd (transcribe env af s)) (af @ ''.error'') = None
       \<and> fs (snd (transcribe env af s)) (af @ ''.json'') = Some (Text (json_dumps j))"
    if d: "fs s af = Some data"
    using transcribe_success[OF assms(1) d assms(2) ok assms(5,6)] by simp
  have b: "fst (VoxWindow_transcribe env af g) = Returned ()
       \<and> fs (snd (VoxWindow_transcribe env af g)) (af @ ''.txt'') = Some (Text (py_rstrip t))
       \<and> transcript (snd (VoxWindow_transcribe env af g)) = JStr t
       \<and> clipboard (snd (VoxWindow_transcribe env af g)) = clipboard g
       \<and> fs (snd (VoxWindow_transcribe env af g)) (af @ ''.error'') = None"
    if d: "fs g af = Some data"
    using VoxWindow_transcribe_success[OF assms(1) d assms(2) ok assms(5,6)] by simp
  have c: "\<exists>ws. t = py_rstrip t @ ws \<and> list_all is_space ws"
    using py_rstrip_split[of t] py_rstrip_dropped[of t] by blast
  from a b c py_rstrip_trimmed[of t] show ?thesis by blast
qed

theorem transcription_success_witness:
  "sample_wav \<noteq> []
   \<and> http sample_env = Responded (ok_response
        ''{\"results\":{\"channels\":[{\"alternatives\":[{\"transcript\":\"hello world\"}]}]}}''
        (transcript_json ''hello world''))
   \<and> extract_transcript (transcript_json ''hello world'') = Inr (JStr ''hello world'')
   \<and> fs recorded_state sample_wav = Some (Wav 16000 1 [1, 2, 3, 4, 5])
   \<and> fst (transcribe sample_env sample_wav recorded_state) = Returned ()
   \<and> fs (snd (transcribe sample_env sample_wav recorded_state)) (sample_wav @ ''.txt'')
        = Some (Text ''hello world'')
   \<and> clipboard (snd (transcribe sample_env sample_wav recorded_state)) = Some ''hello world''
   \<and> fs (snd (transcribe sample_env sample_wav recorded_state)) (sample_wav @ ''.error'') = None"
proof -
  have st: "200 \<le> status_code (ok_response raw j)" "status_code (ok_response raw j) < 300"
    for raw j by (simp_all add: ok_response_simps)
  note T = transcription_success[OF sample_state_facts(1) sample_env_facts(5) st
      ok_response_simps(2) extract_transcript_json,
      of recorded_state "Wav 16000 1 [1, 2, 3, 4, 5]" recorded_gui]
  show ?thesis
    using T sample_state_facts(1,2) sample_env_facts(5) extract_transcript_json[of "''hello world''"]
    by (simp add: rstrip_hello)
qed

text \<open>
  Against C3 as stated: a transcript with a trailing blank. The text sidecar gets the
  trimmed string, the clipboard the untrimmed one; the graphical front end puts nothing
  on the clipboard.
\<close>

theorem clipboard_not_trimmed:
  "fst (transcribe trailing_space_env sample_wav recorded_state) = Returned ()
   \<and> fs (snd (transcribe trailing_space_env sample_wav recorded_state)) (sample_wav @ ''.txt'')
        = Some (Text ''hello world'')
   \<and> clipboard (snd (transcribe trailing_space_env sample_wav recorded_state))
        = Some ''hello world ''
   \<and> clipboard (snd (transcribe trailing_space_env sample_wav recorded_state))
        \<noteq> Some (py_rstrip ''hello world '')
   \<and> clipboard (snd (VoxWindow_transcribe trailing_space_env sample_wav recorded_gui)) = None"
  using transcribe_success[OF sample_state_facts(1,2) variant_env_facts(1)
          ok_response_simps(1) ok_response_simps(2) extract_transcript_json]
    transcribe_simulation[OF sample_state_facts(10,11) variant_gui_facts(3,4), of sample_wav]
    sample_state_facts(12)
  by (simp add: rstrip_hello)

lemma raise_for_status_Some:
  "400 \<le> status_code r \<Longrightarrow> status_code r < 600 \<Longrightarrow> \<exists>msg. raise_for_status u r = Some msg"
  using raise_for_status_None_iff[of u r] by (cases "raise_for_status u r") auto

lemma transcribe_json_written:
  assumes "af \<noteq> []" and "fs s af = Some data" and "http env = Responded r"
    and "\<not> (400 \<le> status_code r \<and> status_code r < 600)" and "json_result r = Inr j"
  shows "fs (snd (transcribe env af s)) (af @ ''.json'') = Some (Text (json_dumps j))"
proof -
  have ok: "raise_for_status (listen_url (DEEPGRAM_MODEL env)) r = None"
    using assms(4) by (simp add: raise_for_status_None_iff)
  show ?thesis
  proof (cases "extract_transcript j")
    case (Inl e)
    from extract_transcript_exceptions[OF Inl] have "\<forall>m. e \<noteq> RequestException m" by auto
    from transcribe_extract_failed(3)[OF assms(1,2,3) ok assms(5) Inl this]
    show ?thesis by simp
  next
    case (Inr t)
    show ?thesis
    proof (cases "\<exists>str. t = JStr str")
      case True
      then obtain str where "t = JStr str" by blast
      with Inr have e: "extract_transcript j = Inr (JStr str)" by simp
      show ?thesis
        unfolding transcribe_success(2)[OF assms(1,2,3) ok assms(5) e] by simp
    next
      case False
      then have "\<forall>str. t \<noteq> JStr str" by blast
      from transcribe_not_str(2)[OF assms(1,2,3) ok assms(5) Inr this]
      show ?thesis by simp
    qed
  qed
qed

lemma raise_for_status_text:
  assumes "400 \<le> status_code r" and "status_code r < 600"
  shows "raise_for_status u r =
           Some (show_nat (status_code r)
                 @ (if status_code r < 500 then '' Client Error: '' else '' Server Error: '')
                 @ reason r @ '' for url: '' @ u)"
  using assms by (simp add: raise_for_status_def)

lemma show_nat_500: "show_nat 500 = ''500''"
  by code_simp

text \<open>
  C2 (as amended). When a response arrives whose status is not in 400..599 (every 2xx
  status is such) and whose body parses as JSON, \<open>transcribe\<close> leaves in
  \<open><path>.json\<close> the \<open>json.dump\<close> serialisation of the parsed body, whatever happens
  afterwards. When the status is in 400..599 it exits with status 1 and the only file it
  touches is \<open><path>.error\<close>, into which it writes the message of the \<open>HTTPError\<close>
  (status, "Client Error" or "Server Error", reason and URL); so \<open><path>.json\<close> is as
  it was, absent if it was absent.
\<close>

theorem json_sidecar_policy:
  assumes "af \<noteq> []" and "fs s af = Some data" and "http env = Responded r"
  shows "(\<not> (400 \<le> status_code r \<and> status_code r < 600) \<and> json_result r = Inr j \<longrightarrow>
            fs (snd (transcribe env af s)) (af @ ''.json'') = Some (Text (json_dumps j)))
   \<and> (400 \<le> status_code r \<and> status_code r < 600 \<longrightarrow>
            fst (transcribe env af s) = SysExit 1
            \<and> fs (snd (transcribe env af s)) (af @ ''.json'') = fs s (af @ ''.json'')
            \<and> fs (snd (transcribe env af s)) =
                 (fs s)(af @ ''.error'' \<mapsto>
                    Text (show_nat (status_code r)
                          @ (if status_code r < 500 then '' Client Error: ''
                             else '' Server Error: '')
                          @ reason r @ '' for url: '' @ listen_url (DEEPGRAM_MODEL env))))"
proof -
  have "fst (transcribe env af s) = SysExit 1
            \<and> fs (snd (transcribe env af s)) (af @ ''.json'') = fs s (af @ ''.json'')
            \<and> fs (snd (transcribe env af s)) =
                 (fs s)(af @ ''.error'' \<mapsto>
                    Text (show_nat (status_code r)
                          @ (if status_code r < 500 then '' Client Error: ''
                             else '' Server Error: '')
                          @ reason r @ '' for url: '' @ listen_url (DEEPGRAM_MODEL env)))"
    if bad: "400 \<le> status_code r" "status_code r < 600"
  proof -
    note m = raise_for_status_text[OF bad, of "listen_url (DEEPGRAM_MODEL env)"]
    note E = transcribe_http_error[OF assms(1,2,3) m]
    have "fs (snd (transcribe env af s)) (af @ ''.json'') = fs s (af @ ''.json'')"
      unfolding E(2) by simp
    with E(1,2) show ?thesis by blast
  qed
  with transcribe_json_written[OF assms] show ?thesis by blast
qed

theorem json_sidecar_policy_witness:
  "sample_wav \<noteq> [] \<and> fs recorded_state sample_wav = Some (Wav 16000 1 [1, 2, 3, 4, 5])
   \<and> http empty_results_env =
        Responded (ok_response ''{\"results\":{}}'' (JObj [(''results'', JObj [])]))
   \<and> \<not> (400 \<le> status_code (ok_response ''{\"results\":{}}'' (JObj [(''results'', JObj [])]))
          \<and> status_code (ok_response ''{\"results\":{}}'' (JObj [(''results'', JObj [])])) < 600)
   \<and> fs (snd (transcribe empty_results_env sample_wav recorded_state)) (sample_wav @ ''.json'')
        = Some (Text ''{\"results\": {}}'')
   \<and> http server_error_env = Responded server_error_response
   \<and> 400 \<le> status_code server_error_response \<and> status_code server_error_response < 600
   \<and> fst (transcribe server_error_env sample_wav recorded_state) = SysExit 1
   \<and> fs (snd (transcribe server_error_env sample_wav recorded_state)) (sample_wav @ ''.json'')
        = None
   \<and> fs (snd (transcribe server_error_env sample_wav recorded_state)) (sample_wav @ ''.error'')
        = Some (Text (''500 Server Error: Internal Server Error for url: ''
                      @ ''https://api.deepgram.com/v1/listen?model=nova-3&smart_format=true''))"
proof -
  have st: "status_code server_error_response = 500"
    "reason server_error_response = ''Internal Server Error''"
    by (simp_all add: server_error_response_def)
  have bad: "400 \<le> status_code server_error_response \<and> status_code server_error_response < 600"
    by (simp add: st)
  note A = json_sidecar_policy[OF sample_state_facts(1,2) variant_env_facts(2),
            of "JObj [(''results'', JObj [])]"]
  note B = json_sidecar_policy[OF sample_state_facts(1,2) variant_env_facts(4), of JNull]
  from A have a: "fs (snd (transcribe empty_results_env sample_wav recorded_state))
                    (sample_wav @ ''.json'') = Some (Text ''{\"results\": {}}'')"
    by (simp add: ok_response_simps dumps_empty_results)
  from B bad have b1: "fst (transcribe server_error_env sample_wav recorded_state) = SysExit 1"
    and b2: "fs (snd (transcribe server_error_env sample_wav recorded_state))
               (sample_wav @ ''.json'') = fs recorded_state (sample_wav @ ''.json'')"
    and b3: "fs (snd (transcribe server_error_env sample_wav recorded_state)) =
               (fs recorded_state)(sample_wav @ ''.error'' \<mapsto>
                  Text (show_nat (status_code server_error_response)
                        @ (if status_code server_error_response < 500 then '' Client Error: ''
                           else '' Server Error: '')
                        @ reason server_error_response @ '' for url: ''
                        @ listen_url (DEEPGRAM_MODEL server_error_env)))"
    by blast+
  have b4: "fs (snd (transcribe server_error_env sample_wav recorded_state))
              (sample_wav @ ''.error'')
        = Some (Text (''500 Server Error: Internal Server Error for url: ''
                      @ ''https://api.deepgram.com/v1/listen?model=nova-3&smart_format=true''))"
    unfolding b3 by (simp add: st show_nat_500 variant_env_facts(8) listen_url_def)
  from a b1 b2 b4 bad sample_state_facts(1,2,3) variant_env_facts(2,4)
  show ?thesis by (simp add: ok_response_simps)
qed

text \<open>
  Against C2 as stated: a response with status 500 leaves no \<open><path>.json\<close> at all, and
  for a response with status 200 and body \<open>{"results":{}}\<close> the sidecar holds
  \<open>{"results": {}}\<close>, the parsed value written out again, not the body as received.
\<close>

theorem json_sidecar_not_always_verbatim:
  "http server_error_env = Responded server_error_response
   \<and> status_code server_error_response = 500
   \<and> fs (snd (transcribe server_error_env sample_wav recorded_state)) (sample_wav @ ''.json'')
        = None
   \<and> http empty_results_env =
        Responded (ok_response ''{\"results\":{}}'' (JObj [(''results'', JObj [])]))
   \<and> content (ok_response ''{\"results\":{}}'' (JObj [(''results'', JObj [])]))
        = ''{\"results\":{}}''
   \<and> fs (snd (transcribe empty_results_env sample_wav recorded_state)) (sample_wav @ ''.json'')
        = Some (Text ''{\"results\": {}}'')
   \<and> fs (snd (transcribe empty_results_env sample_wav recorded_state)) (sample_wav @ ''.json'')
        \<noteq> Some (Text ''{\"results\":{}}'')"
proof -
  have st: "status_code server_error_response = 500"
    by (simp add: server_error_response_def)
  obtain msg where m: "raise_for_status (listen_url (DEEPGRAM_MODEL server_error_env))
                         server_error_response = Some msg"
    using raise_for_status_Some[of server_error_response] st by auto
  have a: "fs (snd (transcribe server_error_env sample_wav recorded_state))
             (sample_wav @ ''.json'') = None"
    unfolding transcribe_http_error(2)[OF sample_state_facts(1,2) variant_env_facts(4) m]
    by (simp add: sample_state_facts(3))
  show ?thesis
    using a st variant_env_facts(2,4) empty_results_run(3)
    by (simp add: ok_response_simps)
qed

section \<open>Exit status\<close>







end
